theory Spec2Isabelle
  imports Main "HOL-Library.Multiset"
begin

section \<open>JavaScript values of the request body\<close>

text \<open>
  The handlers of \<^verbatim>\<open>server/controllers/waterTestController.js\<close> read the fields of a
  JSON request body and test them with \<^verbatim>\<open>!x\<close>, \<^verbatim>\<open>typeof x\<close> and \<^verbatim>\<open>String(x)\<close>.
  A field is a JSON scalar or absent (\<^verbatim>\<open>undefined\<close>). Numbers are the integers, which
  \<^verbatim>\<open>String\<close> prints as their decimal numeral (below \<open>10^21\<close>); a fractional number passes
  every test of the controller as a non-zero integer does. Strings are lists of bytes: the
  two emoji of the alert messages are written as their UTF-8 bytes.
\<close>

datatype jsval = JUndefined | JNull | JBool bool | JNum int | JStr string

fun truthy :: "jsval \<Rightarrow> bool" where
  "truthy JUndefined = False"
| "truthy JNull = False"
| "truthy (JBool b) = b"
| "truthy (JNum n) = (n \<noteq> 0)"
| "truthy (JStr s) = (s \<noteq> [])"

fun typeof :: "jsval \<Rightarrow> string" where
  "typeof JUndefined = ''undefined''"
| "typeof JNull = ''object''"
| "typeof (JBool b) = ''boolean''"
| "typeof (JNum n) = ''number''"
| "typeof (JStr s) = ''string''"

definition digitChar :: "nat \<Rightarrow> char" where
  "digitChar d = ''0123456789'' ! d"

fun showNat :: "nat \<Rightarrow> string" where
  "showNat n = (if n < 10 then [digitChar n] else showNat (n div 10) @ [digitChar (n mod 10)])"

declare showNat.simps [simp del]

definition showInt :: "int \<Rightarrow> string" where
  "showInt i = (if i < 0 then CHR ''-'' # showNat (nat (- i)) else showNat (nat i))"

text \<open>\<^verbatim>\<open>String(x)\<close>, which is also the conversion of \<^verbatim>\<open>${x}\<close> in a template literal.\<close>

fun js_String :: "jsval \<Rightarrow> string" where
  "js_String JUndefined = ''undefined''"
| "js_String JNull = ''null''"
| "js_String (JBool b) = (if b then ''true'' else ''false'')"
| "js_String (JNum n) = showInt n"
| "js_String (JStr s) = s"

text \<open>\<^verbatim>\<open>s.toLowerCase()\<close> on the ASCII letters; every other byte is kept.\<close>

definition toLowerChar :: "char \<Rightarrow> char" where
  "toLowerChar c =
     (case map_of (zip ''ABCDEFGHIJKLMNOPQRSTUVWXYZ'' ''abcdefghijklmnopqrstuvwxyz'') c of
        None \<Rightarrow> c
      | Some l \<Rightarrow> l)"

definition toLowerCase :: "string \<Rightarrow> string" where
  "toLowerCase s = map toLowerChar s"

definition isDigit :: "char \<Rightarrow> bool" where
  "isDigit c = (c \<in> set ''0123456789'')"

text \<open>
  The helper of \<^verbatim>\<open>createWaterTest\<close>:
  \<^verbatim>\<open>typeof number === "string" && /^\+\d{10,15}$/.test(number)\<close>.
  Without the \<^verbatim>\<open>m\<close> flag \<^verbatim>\<open>$\<close> is the end of the input, and \<^verbatim>\<open>\d\<close> is an ASCII digit.
\<close>

fun isValidPhoneNumber :: "jsval \<Rightarrow> bool" where
  "isValidPhoneNumber (JStr (c # ds)) =
     (c = CHR ''+'' \<and> 10 \<le> length ds \<and> length ds \<le> 15 \<and> list_all isDigit ds)"
| "isValidPhoneNumber v = False"


section \<open>The store and the collaborators\<close>

text \<open>
  The persistence collaborator (\<^verbatim>\<open>prisma\<close>) keeps four tables. A column that the
  controller hands over unchanged holds the JavaScript value it was given;
  \<open>wt_dateTime\<close> holds the argument \<open>v\<close> of \<^verbatim>\<open>new Date(v)\<close>.
\<close>

type_synonym ident = string

record waterTest =
  wt_id :: ident
  wt_waterbodyName :: jsval
  wt_waterbodyId :: jsval
  wt_dateTime :: jsval
  wt_location :: jsval
  wt_latitude :: jsval
  wt_longitude :: jsval
  wt_photoUrl :: jsval
  wt_notes :: jsval
  wt_quality :: string
  wt_ashaId :: ident
  wt_createdAt :: nat

record userRow =
  u_id :: ident
  u_role :: string
  u_number :: jsval

record leaderAlert =
  la_leaderId :: ident
  la_message :: string
  la_waterTestId :: ident

record globalAlert =
  ga_message :: string
  ga_waterTestId :: ident

datatype channel = SMS | WhatsApp

type_synonym send = "channel \<times> jsval \<times> string"

record reqBody =
  waterbodyName :: jsval
  waterbodyId :: jsval
  dateTime :: jsval
  location :: jsval
  latitude :: jsval
  longitude :: jsval
  photoUrl :: jsval
  "notes" :: jsval
  quality :: jsval

record reqUser =
  user_id :: ident
  user_role :: string

record request =
  body :: reqBody
  user :: reqUser
  params_id :: ident

record healthCardReq =
  hc_waterbodyName :: jsval
  hc_waterbodyId :: jsval
  hc_location :: jsval
  hc_latitude :: jsval
  hc_longitude :: jsval
  hc_user :: reqUser

datatype dbcall =
  WaterTestCreate | WaterTestFindUnique | WaterTestUpdate | WaterTestDelete
| WaterTestFindMany | UserFindMany | LeaderAlertCreateMany | GlobalAlertCreate

datatype exn = PrismaError dbcall | SmsError | WhatsAppError | HealthCardError

datatype logEntry = ConsoleWarn string | ConsoleError string exn

record world =
  waterTests :: "waterTest list"
  users :: "userRow list"
  leaderAlerts :: "leaderAlert list"
  globalAlerts :: "globalAlert list"
  outbox :: "send list"
  healthCardCalls :: "healthCardReq list"
  console :: "logEntry list"

text \<open>
  What the collaborators answer during one request: which persistence calls reject, the
  id and creation time the store gives a new row, the text of
  \<^verbatim>\<open>new Date(v).toLocaleString("en-IN", ...)\<close>, which sends reject and whether the
  health-card upsert throws.
\<close>

record collab =
  dbRejects :: "dbcall \<Rightarrow> bool"
  newId :: ident
  newCreatedAt :: nat
  toLocaleString :: "jsval \<Rightarrow> string"
  smsRejects :: "jsval \<Rightarrow> string \<Rightarrow> bool"
  whatsAppRejects :: "jsval \<Rightarrow> string \<Rightarrow> bool"
  healthCardThrows :: "healthCardReq \<Rightarrow> bool"

datatype resBody =
  Message string | WaterTestId ident | Deleted bool | Items "waterTest list"

datatype response = Response (status: nat) (json: resBody)

subsection \<open>Awaited calls: a result or an exception, and the world after it\<close>

type_synonym 'a io = "world \<Rightarrow> (exn + 'a) \<times> world"

definition ret :: "'a \<Rightarrow> 'a io" where
  "ret a = (\<lambda>w. (Inr a, w))"

definition andThen :: "'a io \<Rightarrow> ('a \<Rightarrow> 'b io) \<Rightarrow> 'b io" where
  "andThen m f = (\<lambda>w. case m w of (Inl e, w') \<Rightarrow> (Inl e, w') | (Inr a, w') \<Rightarrow> f a w')"

definition tryCatch :: "'a io \<Rightarrow> (exn \<Rightarrow> 'a io) \<Rightarrow> 'a io" where
  "tryCatch m h = (\<lambda>w. case m w of (Inl e, w') \<Rightarrow> h e w' | (Inr a, w') \<Rightarrow> (Inr a, w'))"

definition console_warn :: "string \<Rightarrow> unit io" where
  "console_warn text = (\<lambda>w. (Inr (), w\<lparr>console := console w @ [ConsoleWarn text]\<rparr>))"

definition console_error :: "string \<Rightarrow> exn \<Rightarrow> unit io" where
  "console_error label e = (\<lambda>w. (Inr (), w\<lparr>console := console w @ [ConsoleError label e]\<rparr>))"

text \<open>
  The outer \<^verbatim>\<open>try { ... } catch (error) { console.error(label, error); return
  res.status(500).json({ message: "Internal Server Error" }) }\<close> of every handler.
\<close>

definition handler :: "string \<Rightarrow> response io \<Rightarrow> world \<Rightarrow> response \<times> world" where
  "handler label tryBlock w =
     (case tryBlock w of
        (Inr res, w') \<Rightarrow> (res, w')
      | (Inl error, w') \<Rightarrow>
          (Response 500 (Message ''Internal Server Error''),
           w'\<lparr>console := console w' @ [ConsoleError label error]\<rparr>))"

subsection \<open>The persistence calls\<close>

definition waterTest_create :: "collab \<Rightarrow> waterTest \<Rightarrow> waterTest io" where
  "waterTest_create c data =
     (\<lambda>w. if dbRejects c WaterTestCreate then (Inl (PrismaError WaterTestCreate), w)
          else (let record = data\<lparr>wt_id := newId c, wt_createdAt := newCreatedAt c\<rparr>
                in (Inr record, w\<lparr>waterTests := waterTests w @ [record]\<rparr>)))"

definition waterTest_findUnique :: "collab \<Rightarrow> ident \<Rightarrow> waterTest option io" where
  "waterTest_findUnique c i =
     (\<lambda>w. if dbRejects c WaterTestFindUnique then (Inl (PrismaError WaterTestFindUnique), w)
          else (Inr (find (\<lambda>t. wt_id t = i) (waterTests w)), w))"

text \<open>The \<^verbatim>\<open>data\<close> object of an update: a column is set when its key is present.\<close>

record data =
  d_waterbodyName :: "jsval option"
  d_waterbodyId :: "jsval option"
  d_dateTime :: "jsval option"
  d_location :: "jsval option"
  d_latitude :: "jsval option"
  d_longitude :: "jsval option"
  d_photoUrl :: "jsval option"
  d_notes :: "jsval option"
  d_quality :: "string option"

definition emptyData :: data where
  "emptyData =
     \<lparr>d_waterbodyName = None, d_waterbodyId = None, d_dateTime = None, d_location = None,
      d_latitude = None, d_longitude = None, d_photoUrl = None, d_notes = None,
      d_quality = None\<rparr>"

definition setColumn :: "'a option \<Rightarrow> 'a \<Rightarrow> 'a" where
  "setColumn new old = (case new of None \<Rightarrow> old | Some v \<Rightarrow> v)"

definition applyData :: "data \<Rightarrow> waterTest \<Rightarrow> waterTest" where
  "applyData d t =
     t\<lparr>wt_waterbodyName := setColumn (d_waterbodyName d) (wt_waterbodyName t),
       wt_waterbodyId := setColumn (d_waterbodyId d) (wt_waterbodyId t),
       wt_dateTime := setColumn (d_dateTime d) (wt_dateTime t),
       wt_location := setColumn (d_location d) (wt_location t),
       wt_latitude := setColumn (d_latitude d) (wt_latitude t),
       wt_longitude := setColumn (d_longitude d) (wt_longitude t),
       wt_photoUrl := setColumn (d_photoUrl d) (wt_photoUrl t),
       wt_notes := setColumn (d_notes d) (wt_notes t),
       wt_quality := setColumn (d_quality d) (wt_quality t)\<rparr>"

text \<open>An update or a delete of a row that is not there rejects, as any other failure.\<close>

definition waterTest_update :: "collab \<Rightarrow> ident \<Rightarrow> data \<Rightarrow> waterTest io" where
  "waterTest_update c i d =
     (\<lambda>w. if dbRejects c WaterTestUpdate then (Inl (PrismaError WaterTestUpdate), w)
          else (case find (\<lambda>t. wt_id t = i) (waterTests w) of
                  None \<Rightarrow> (Inl (PrismaError WaterTestUpdate), w)
                | Some t \<Rightarrow>
                    (Inr (applyData d t),
                     w\<lparr>waterTests :=
                         map (\<lambda>t. if wt_id t = i then applyData d t else t) (waterTests w)\<rparr>)))"

definition waterTest_delete :: "collab \<Rightarrow> ident \<Rightarrow> unit io" where
  "waterTest_delete c i =
     (\<lambda>w. if dbRejects c WaterTestDelete then (Inl (PrismaError WaterTestDelete), w)
          else (case find (\<lambda>t. wt_id t = i) (waterTests w) of
                  None \<Rightarrow> (Inl (PrismaError WaterTestDelete), w)
                | Some t \<Rightarrow>
                    (Inr (), w\<lparr>waterTests := filter (\<lambda>t. wt_id t \<noteq> i) (waterTests w)\<rparr>)))"

text \<open>
  \<^verbatim>\<open>orderBy: { createdAt: "desc" }\<close>: the rows by falling creation time; among rows of
  one creation time the later row of the table comes first.
\<close>

definition orderByCreatedAtDesc :: "waterTest list \<Rightarrow> waterTest list" where
  "orderByCreatedAtDesc ts = rev (sort_key wt_createdAt ts)"

definition waterTest_findMany :: "collab \<Rightarrow> (waterTest \<Rightarrow> bool) \<Rightarrow> waterTest list io" where
  "waterTest_findMany c wh =
     (\<lambda>w. if dbRejects c WaterTestFindMany then (Inl (PrismaError WaterTestFindMany), w)
          else (Inr (orderByCreatedAtDesc (filter wh (waterTests w))), w))"

definition user_findMany :: "collab \<Rightarrow> (userRow \<Rightarrow> bool) \<Rightarrow> userRow list io" where
  "user_findMany c wh =
     (\<lambda>w. if dbRejects c UserFindMany then (Inl (PrismaError UserFindMany), w)
          else (Inr (filter wh (users w)), w))"

definition leaderAlert_createMany :: "collab \<Rightarrow> leaderAlert list \<Rightarrow> unit io" where
  "leaderAlert_createMany c rows =
     (\<lambda>w. if dbRejects c LeaderAlertCreateMany then (Inl (PrismaError LeaderAlertCreateMany), w)
          else (Inr (), w\<lparr>leaderAlerts := leaderAlerts w @ rows\<rparr>))"

definition globalAlert_create :: "collab \<Rightarrow> globalAlert \<Rightarrow> unit io" where
  "globalAlert_create c row =
     (\<lambda>w. if dbRejects c GlobalAlertCreate then (Inl (PrismaError GlobalAlertCreate), w)
          else (Inr (), w\<lparr>globalAlerts := globalAlerts w @ [row]\<rparr>))"

subsection \<open>The notification and health-card collaborators\<close>

text \<open>A send is attempted, and so recorded, whether it resolves or rejects.\<close>

definition sendSMSWrapper :: "collab \<Rightarrow> jsval \<Rightarrow> string \<Rightarrow> unit io" where
  "sendSMSWrapper c to text =
     (\<lambda>w. (if smsRejects c to text then Inl SmsError else Inr (),
           w\<lparr>outbox := outbox w @ [(SMS, to, text)]\<rparr>))"

definition sendWhatsAppWrapper :: "collab \<Rightarrow> jsval \<Rightarrow> string \<Rightarrow> unit io" where
  "sendWhatsAppWrapper c to text =
     (\<lambda>w. (if whatsAppRejects c to text then Inl WhatsAppError else Inr (),
           w\<lparr>outbox := outbox w @ [(WhatsApp, to, text)]\<rparr>))"

text \<open>
  Modelled from the spec: \<^verbatim>\<open>createOrUpdateHealthCard\<close> of
  \<^verbatim>\<open>healthCardController.js\<close>, an upsert that is "best-effort", whose result this caller
  does not consume and whose writes go to the health cards, which this controller never
  reads. The call is recorded; it returns or throws.
\<close>

definition createOrUpdateHealthCard :: "collab \<Rightarrow> healthCardReq \<Rightarrow> unit io" where
  "createOrUpdateHealthCard c healthCardReq =
     (\<lambda>w. (if healthCardThrows c healthCardReq then Inl HealthCardError else Inr (),
           w\<lparr>healthCardCalls := healthCardCalls w @ [healthCardReq]\<rparr>))"


section \<open>The handlers\<close>

subsection \<open>createWaterTest\<close>

definition newline :: string where
  "newline = [CHR 0x0A]"

text \<open>U+26A0 U+FE0F (warning sign) and U+1F6A8 (police car light) in UTF-8.\<close>

definition warningSign :: string where
  "warningSign = [CHR 0xE2, CHR 0x9A, CHR 0xA0, CHR 0xEF, CHR 0xB8, CHR 0x8F]"

definition policeLight :: string where
  "policeLight = [CHR 0xF0, CHR 0x9F, CHR 0x9A, CHR 0xA8]"

definition mediumAlertMessage :: "waterTest \<Rightarrow> jsval \<Rightarrow> string \<Rightarrow> string" where
  "mediumAlertMessage record loc formattedDate =
     warningSign @ '' Medium Water Quality Alert'' @ newline @
     ''Waterbody: '' @ js_String (wt_waterbodyName record) @ newline @
     ''Location: '' @ js_String loc @ newline @
     ''Date: '' @ formattedDate"

definition highAlertMessage :: "waterTest \<Rightarrow> jsval \<Rightarrow> string \<Rightarrow> string" where
  "highAlertMessage record loc formattedDate =
     policeLight @ '' HIGH RISK ALERT'' @ newline @
     ''Waterbody: '' @ js_String (wt_waterbodyName record) @ newline @
     ''Location: '' @ js_String loc @ newline @
     ''Date: '' @ formattedDate"

text \<open>The rows of \<^verbatim>\<open>leaderAlert.createMany\<close> and \<^verbatim>\<open>globalAlert.create\<close>.\<close>

definition leaderAlertFor :: "waterTest \<Rightarrow> userRow \<Rightarrow> leaderAlert" where
  "leaderAlertFor record l =
     \<lparr>la_leaderId = u_id l,
      la_message = warningSign @ '' Medium Water Quality at '' @ js_String (wt_waterbodyName record),
      la_waterTestId = wt_id record\<rparr>"

definition globalAlertFor :: "waterTest \<Rightarrow> globalAlert" where
  "globalAlertFor record =
     \<lparr>ga_message = policeLight @ '' High Risk Water Quality detected at '' @
                   js_String (wt_waterbodyName record),
      ga_waterTestId = wt_id record\<rparr>"

text \<open>
  The two iterations \<^verbatim>\<open>for (const leader of leaders)\<close> and
  \<^verbatim>\<open>for (const user of users)\<close>: they differ in the word of the warning (\<open>who\<close>) and
  in the message. An awaited send that rejects ends the iteration.
\<close>

fun notifyEach :: "collab \<Rightarrow> string \<Rightarrow> string \<Rightarrow> jsval list \<Rightarrow> unit io" where
  "notifyEach c who alertMessage [] = ret ()"
| "notifyEach c who alertMessage (number # rest) =
     (if truthy number \<and> isValidPhoneNumber number then
        andThen (sendSMSWrapper c number alertMessage) (\<lambda>_.
        andThen (sendWhatsAppWrapper c number alertMessage) (\<lambda>_.
        notifyEach c who alertMessage rest))
      else
        andThen (console_warn (''Skipping invalid '' @ who @ '' number: '' @ js_String number)) (\<lambda>_.
        notifyEach c who alertMessage rest))"

text \<open>Lines 77 to 131, \<^verbatim>\<open>ALERT HANDLING\<close>.\<close>

definition alertHandling :: "collab \<Rightarrow> string \<Rightarrow> waterTest \<Rightarrow> jsval \<Rightarrow> string \<Rightarrow> unit io" where
  "alertHandling c normalizedQuality record loc formattedDate =
     (if normalizedQuality = ''medium'' then
        andThen (user_findMany c (\<lambda>u. u_role u = ''leader'')) (\<lambda>leaders.
        andThen (if leaders \<noteq> [] then
                   leaderAlert_createMany c (map (\<lambda>l. leaderAlertFor record l) leaders)
                 else ret ()) (\<lambda>_.
        notifyEach c ''leader'' (mediumAlertMessage record loc formattedDate)
          (map u_number leaders)))
      else if normalizedQuality = ''high'' then
        andThen (globalAlert_create c (globalAlertFor record)) (\<lambda>_.
        andThen (user_findMany c (\<lambda>u. True)) (\<lambda>users.
        notifyEach c ''user'' (highAlertMessage record loc formattedDate)
          (map u_number users)))
      else ret ())"

text \<open>Lines 134 to 151, \<^verbatim>\<open>HEALTH CARD UPDATE\<close>, with its own try and catch.\<close>

definition healthCardReqOf :: "waterTest \<Rightarrow> reqUser \<Rightarrow> healthCardReq" where
  "healthCardReqOf record u =
     \<lparr>hc_waterbodyName = wt_waterbodyName record, hc_waterbodyId = wt_waterbodyId record,
      hc_location = wt_location record, hc_latitude = wt_latitude record,
      hc_longitude = wt_longitude record, hc_user = u\<rparr>"

definition healthCardUpdate :: "collab \<Rightarrow> waterTest \<Rightarrow> reqUser \<Rightarrow> unit io" where
  "healthCardUpdate c record u =
     tryCatch
       (createOrUpdateHealthCard c (healthCardReqOf record u))
       (\<lambda>healthCardError. console_error ''Error updating health card:'' healthCardError)"

text \<open>
  The \<^verbatim>\<open>data\<close> of \<^verbatim>\<open>prisma.waterTest.create\<close>. It has no id and no creation time:
  the two are the store's to give, and \<open>waterTest_create\<close> overwrites them.
\<close>

definition createData :: "request \<Rightarrow> string \<Rightarrow> waterTest" where
  "createData req normalizedQuality =
     (let b = body req in
      \<lparr>wt_id = [],
       wt_waterbodyName = waterbodyName b,
       wt_waterbodyId = (if truthy (waterbodyId b) then waterbodyId b else JNull),
       wt_dateTime = dateTime b,
       wt_location = location b,
       wt_latitude = (if typeof (latitude b) = ''number'' then latitude b else JNull),
       wt_longitude = (if typeof (longitude b) = ''number'' then longitude b else JNull),
       wt_photoUrl = photoUrl b,
       wt_notes = notes b,
       wt_quality = normalizedQuality,
       wt_ashaId = user_id (user req),
       wt_createdAt = 0\<rparr>)"

definition createWaterTest_try :: "collab \<Rightarrow> request \<Rightarrow> response io" where
  "createWaterTest_try c req =
     (let b = body req in
      if \<not> truthy (waterbodyName b) \<or> \<not> truthy (dateTime b) \<or> \<not> truthy (location b) \<or>
         \<not> truthy (photoUrl b) \<or> \<not> truthy (notes b) \<or> \<not> truthy (quality b)
      then ret (Response 400 (Message
             ''waterbodyName, dateTime, location, photoUrl, notes, quality are required''))
      else if user_role (user req) \<notin> set [''asha'', ''admin'', ''leader'']
      then ret (Response 403 (Message ''forbidden''))
      else
        (let normalizedQuality = toLowerCase (js_String (quality b)) in
         if normalizedQuality \<notin> set [''good'', ''medium'', ''high'']
         then ret (Response 400 (Message ''invalid quality''))
         else
           andThen (waterTest_create c (createData req normalizedQuality)) (\<lambda>record.
           andThen (alertHandling c normalizedQuality record (location b)
                      (toLocaleString c (dateTime b))) (\<lambda>_.
           andThen (healthCardUpdate c record (user req)) (\<lambda>_.
           ret (Response 201 (WaterTestId (wt_id record))))))))"

definition createWaterTest :: "collab \<Rightarrow> request \<Rightarrow> world \<Rightarrow> response \<times> world" where
  "createWaterTest c req = handler ''createWaterTest error'' (createWaterTest_try c req)"

subsection \<open>updateWaterTest and deleteWaterTest\<close>

text \<open>Lines 181 to 196: the \<^verbatim>\<open>data\<close> object, or the early 400 of an invalid quality.\<close>

definition updateData :: "reqBody \<Rightarrow> response + data" where
  "updateData b =
     (let d = emptyData;
          d = (if truthy (waterbodyName b) then d\<lparr>d_waterbodyName := Some (waterbodyName b)\<rparr> else d);
          d = (if typeof (waterbodyId b) \<noteq> ''undefined''
               then d\<lparr>d_waterbodyId := Some (if truthy (waterbodyId b) then waterbodyId b else JNull)\<rparr>
               else d);
          d = (if truthy (dateTime b) then d\<lparr>d_dateTime := Some (dateTime b)\<rparr> else d);
          d = (if truthy (location b) then d\<lparr>d_location := Some (location b)\<rparr> else d);
          d = (if typeof (latitude b) = ''number'' then d\<lparr>d_latitude := Some (latitude b)\<rparr> else d);
          d = (if typeof (longitude b) = ''number'' then d\<lparr>d_longitude := Some (longitude b)\<rparr> else d);
          d = (if truthy (photoUrl b) then d\<lparr>d_photoUrl := Some (photoUrl b)\<rparr> else d);
          d = (if truthy (notes b) then d\<lparr>d_notes := Some (notes b)\<rparr> else d)
      in if truthy (quality b) then
           (let q = toLowerCase (js_String (quality b)) in
            if q \<notin> set [''good'', ''medium'', ''high'']
            then Inl (Response 400 (Message ''invalid quality''))
            else Inr (d\<lparr>d_quality := Some q\<rparr>))
         else Inr d)"

definition updateWaterTest_try :: "collab \<Rightarrow> request \<Rightarrow> response io" where
  "updateWaterTest_try c req =
     andThen (waterTest_findUnique c (params_id req)) (\<lambda>existing.
       case existing of
         None \<Rightarrow> ret (Response 404 (Message ''water test not found''))
       | Some ex \<Rightarrow>
           if \<not> (user_role (user req) = ''admin'' \<or> user_id (user req) = wt_ashaId ex)
           then ret (Response 403 (Message ''forbidden''))
           else
             (case updateData (body req) of
                Inl res \<Rightarrow> ret res
              | Inr d \<Rightarrow>
                  andThen (waterTest_update c (params_id req) d) (\<lambda>updated.
                  ret (Response 200 (WaterTestId (wt_id updated))))))"

definition updateWaterTest :: "collab \<Rightarrow> request \<Rightarrow> world \<Rightarrow> response \<times> world" where
  "updateWaterTest c req = handler ''updateWaterTest error'' (updateWaterTest_try c req)"

definition deleteWaterTest_try :: "collab \<Rightarrow> request \<Rightarrow> response io" where
  "deleteWaterTest_try c req =
     andThen (waterTest_findUnique c (params_id req)) (\<lambda>existing.
       case existing of
         None \<Rightarrow> ret (Response 404 (Message ''water test not found''))
       | Some ex \<Rightarrow>
           if \<not> (user_role (user req) = ''admin'' \<or> user_id (user req) = wt_ashaId ex)
           then ret (Response 403 (Message ''forbidden''))
           else
             andThen (waterTest_delete c (params_id req)) (\<lambda>_.
             ret (Response 200 (Deleted True))))"

definition deleteWaterTest :: "collab \<Rightarrow> request \<Rightarrow> world \<Rightarrow> response \<times> world" where
  "deleteWaterTest c req = handler ''deleteWaterTest error'' (deleteWaterTest_try c req)"

subsection \<open>The listings\<close>

definition listAllWaterTests_try :: "collab \<Rightarrow> request \<Rightarrow> response io" where
  "listAllWaterTests_try c req =
     (if user_role (user req) \<noteq> ''admin'' then ret (Response 403 (Message ''forbidden''))
      else andThen (waterTest_findMany c (\<lambda>t. True)) (\<lambda>items.
           ret (Response 200 (Items items))))"

definition listAllWaterTests :: "collab \<Rightarrow> request \<Rightarrow> world \<Rightarrow> response \<times> world" where
  "listAllWaterTests c req = handler ''listAllWaterTests error'' (listAllWaterTests_try c req)"

definition getUserWaterTests_try :: "collab \<Rightarrow> request \<Rightarrow> response io" where
  "getUserWaterTests_try c req =
     andThen (waterTest_findMany c (\<lambda>t. wt_ashaId t = user_id (user req))) (\<lambda>items.
     ret (Response 200 (Items items)))"

definition getUserWaterTests :: "collab \<Rightarrow> request \<Rightarrow> world \<Rightarrow> response \<times> world" where
  "getUserWaterTests c req = handler ''getUserWaterTests error'' (getUserWaterTests_try c req)"

definition getWaterTestsByUser_try :: "collab \<Rightarrow> request \<Rightarrow> response io" where
  "getWaterTestsByUser_try c req =
     andThen (waterTest_findMany c (\<lambda>t. wt_ashaId t = user_id (user req))) (\<lambda>items.
     ret (Response 200 (Items items)))"

definition getWaterTestsByUser :: "collab \<Rightarrow> request \<Rightarrow> world \<Rightarrow> response \<times> world" where
  "getWaterTestsByUser c req = handler ''getWaterTestsByUser error'' (getWaterTestsByUser_try c req)"

section \<open>Vocabulary of the properties\<close>

text \<open>The first test of \<^verbatim>\<open>createWaterTest\<close> passes: every required field is truthy.\<close>

definition requiredPresent :: "reqBody \<Rightarrow> bool" where
  "requiredPresent b =
     (truthy (waterbodyName b) \<and> truthy (dateTime b) \<and> truthy (location b) \<and>
      truthy (photoUrl b) \<and> truthy (notes b) \<and> truthy (quality b))"

definition normalizedQuality :: "request \<Rightarrow> string" where
  "normalizedQuality req = toLowerCase (js_String (quality (body req)))"

text \<open>The row that \<^verbatim>\<open>prisma.waterTest.create\<close> returns for a request.\<close>

definition createdRecord :: "collab \<Rightarrow> request \<Rightarrow> waterTest" where
  "createdRecord c req =
     (createData req (normalizedQuality req))\<lparr>wt_id := newId c, wt_createdAt := newCreatedAt c\<rparr>"

text \<open>
  The users whom the alert handling loads, and the text it sends them: the leaders for
  \<open>medium\<close>, every user for \<open>high\<close>.
\<close>

definition recipients :: "string \<Rightarrow> world \<Rightarrow> userRow list" where
  "recipients nq w = (if nq = ''medium'' then filter (\<lambda>u. u_role u = ''leader'') (users w) else users w)"

definition alertMessage :: "collab \<Rightarrow> request \<Rightarrow> string" where
  "alertMessage c req =
     (if normalizedQuality req = ''medium''
      then mediumAlertMessage (createdRecord c req) (location (body req))
             (toLocaleString c (dateTime (body req)))
      else highAlertMessage (createdRecord c req) (location (body req))
             (toLocaleString c (dateTime (body req))))"

text \<open>The two sends to one recipient, and the sends up to the one that rejects.\<close>

definition sendsTo :: "string \<Rightarrow> jsval \<Rightarrow> send list" where
  "sendsTo text n = [(SMS, n, text), (WhatsApp, n, text)]"

definition sendRejects :: "collab \<Rightarrow> string \<Rightarrow> jsval \<Rightarrow> bool" where
  "sendRejects c text n = (smsRejects c n text \<or> whatsAppRejects c n text)"

definition sendsUntilReject :: "collab \<Rightarrow> string \<Rightarrow> jsval \<Rightarrow> send list" where
  "sendsUntilReject c text n =
     (if smsRejects c n text then [(SMS, n, text)] else [(SMS, n, text), (WhatsApp, n, text)])"

text \<open>
  The lookup of \<^verbatim>\<open>updateWaterTest\<close> and \<^verbatim>\<open>deleteWaterTest\<close> resolves and finds the
  record; the caller passes their test of admin or owner.
\<close>

definition found :: "collab \<Rightarrow> request \<Rightarrow> world \<Rightarrow> waterTest \<Rightarrow> bool" where
  "found c req w existing =
     (\<not> dbRejects c WaterTestFindUnique \<and>
      find (\<lambda>t. wt_id t = params_id req) (waterTests w) = Some existing)"

definition adminOrOwner :: "request \<Rightarrow> waterTest \<Rightarrow> bool" where
  "adminOrOwner req existing =
     (user_role (user req) = ''admin'' \<or> user_id (user req) = wt_ashaId existing)"

text \<open>The row that an update leaves in place of a row \<open>t\<close>, when the body builds a patch.\<close>

definition patchedRow :: "reqBody \<Rightarrow> waterTest \<Rightarrow> waterTest" where
  "patchedRow b t = (case updateData b of Inl res \<Rightarrow> t | Inr d \<Rightarrow> applyData d t)"

subsection \<open>Example data\<close>

definition ex_collab :: collab where
  "ex_collab =
     \<lparr>dbRejects = (\<lambda>call. False), newId = ''t1'', newCreatedAt = 7,
      toLocaleString = (\<lambda>v. ''Thu, 11 Sep 2025, 03:30 pm''),
      smsRejects = (\<lambda>n text. False), whatsAppRejects = (\<lambda>n text. False),
      healthCardThrows = (\<lambda>r. False)\<rparr>"

definition ex_test :: waterTest where
  "ex_test =
     \<lparr>wt_id = ''t0'', wt_waterbodyName = JStr ''Pond'', wt_waterbodyId = JStr ''wb7'',
      wt_dateTime = JStr ''2025-09-10T08:00:00Z'', wt_location = JStr ''Nashik'',
      wt_latitude = JNum 20, wt_longitude = JNum 73, wt_photoUrl = JStr ''pond.jpg'',
      wt_notes = JStr ''clear'', wt_quality = ''good'', wt_ashaId = ''a1'',
      wt_createdAt = 3\<rparr>"

definition ex_users :: "userRow list" where
  "ex_users =
     [\<lparr>u_id = ''l1'', u_role = ''leader'', u_number = JStr ''+911234567890''\<rparr>,
      \<lparr>u_id = ''l2'', u_role = ''leader'', u_number = JStr ''invalid''\<rparr>,
      \<lparr>u_id = ''a1'', u_role = ''asha'', u_number = JNull\<rparr>]"

definition ex_world :: world where
  "ex_world =
     \<lparr>waterTests = [ex_test], users = ex_users, leaderAlerts = [], globalAlerts = [],
      outbox = [], healthCardCalls = [], console = []\<rparr>"

definition ex_body :: reqBody where
  "ex_body =
     \<lparr>waterbodyName = JStr ''Lake'', waterbodyId = JUndefined,
      dateTime = JStr ''2025-09-11T10:00:00Z'', location = JStr ''Pune'',
      latitude = JNum 18, longitude = JNum 74, photoUrl = JStr ''lake.jpg'',
      notes = JStr ''murky'', quality = JStr ''Medium''\<rparr>"

definition ex_patch :: reqBody where
  "ex_patch =
     \<lparr>waterbodyName = JUndefined, waterbodyId = JUndefined, dateTime = JUndefined,
      location = JUndefined, latitude = JUndefined, longitude = JUndefined,
      photoUrl = JUndefined, notes = JUndefined, quality = JUndefined\<rparr>"

definition ex_asha :: reqUser where
  "ex_asha = \<lparr>user_id = ''a1'', user_role = ''asha''\<rparr>"

definition ex_guest :: reqUser where
  "ex_guest = \<lparr>user_id = ''g1'', user_role = ''guest''\<rparr>"

definition ex_create :: "jsval \<Rightarrow> reqUser \<Rightarrow> request" where
  "ex_create q u = \<lparr>body = ex_body\<lparr>quality := q\<rparr>, user = u, params_id = []\<rparr>"

definition ex_update :: "reqBody \<Rightarrow> reqUser \<Rightarrow> request" where
  "ex_update b u = \<lparr>body = b, user = u, params_id = ''t0''\<rparr>"

definition ex_tests :: "waterTest list" where
  "ex_tests =
     [ex_test,
      ex_test\<lparr>wt_id := ''t2'', wt_ashaId := ''a2'', wt_createdAt := 4\<rparr>,
      ex_test\<lparr>wt_id := ''t3'', wt_createdAt := 5\<rparr>]"

definition ex_users_many :: "userRow list" where
  "ex_users_many =
     [\<lparr>u_id = ''l1'', u_role = ''leader'', u_number = JStr ''+911234567890''\<rparr>,
      \<lparr>u_id = ''l3'', u_role = ''leader'', u_number = JStr ''+919876543210''\<rparr>,
      \<lparr>u_id = ''l2'', u_role = ''leader'', u_number = JStr ''invalid''\<rparr>,
      \<lparr>u_id = ''l4'', u_role = ''leader'', u_number = JStr ''+14155550100''\<rparr>]"

section \<open>Properties\<close>

subsection \<open>Running the awaited calls\<close>

lemma ret_apply: "ret a w = (Inr a, w)"
  by (simp add: ret_def)

lemma andThen_Inr: "m w = (Inr a, w') \<Longrightarrow> andThen m f w = f a w'"
  by (simp add: andThen_def)

lemma andThen_Inl: "m w = (Inl e, w') \<Longrightarrow> andThen m f w = (Inl e, w')"
  by (simp add: andThen_def)

lemma handler_Inr: "tryBlock w = (Inr res, w') \<Longrightarrow> handler label tryBlock w = (res, w')"
  by (simp add: handler_def)

lemma handler_Inl:
  "tryBlock w = (Inl e, w') \<Longrightarrow>
   handler label tryBlock w =
     (Response 500 (Message ''Internal Server Error''),
      w'\<lparr>console := console w' @ [ConsoleError label e]\<rparr>)"
  by (simp add: handler_def)

subsection \<open>The notification loop\<close>

lemma isValidPhoneNumber_truthy: "isValidPhoneNumber n \<Longrightarrow> truthy n"
  by (induction n rule: isValidPhoneNumber.induct) simp_all

lemma notifyEach_frame:
  "waterTests (snd (notifyEach c who text ns w)) = waterTests w \<and>
   users (snd (notifyEach c who text ns w)) = users w \<and>
   leaderAlerts (snd (notifyEach c who text ns w)) = leaderAlerts w \<and>
   globalAlerts (snd (notifyEach c who text ns w)) = globalAlerts w \<and>
   healthCardCalls (snd (notifyEach c who text ns w)) = healthCardCalls w"
proof (induction ns arbitrary: w)
  case Nil
  then show ?case by (simp add: ret_def)
next
  case (Cons n ns)
  show ?case
    by (simp add: andThen_def sendSMSWrapper_def sendWhatsAppWrapper_def console_warn_def Cons.IH)
qed

lemma notifyEach_outbox:
  "\<exists>sent. outbox (snd (notifyEach c who text ns w)) = outbox w @ sent \<and>
          (\<forall>s \<in> set sent. fst (snd s) \<in> set ns \<and> isValidPhoneNumber (fst (snd s)) \<and>
                           snd (snd s) = text)"
proof (induction ns arbitrary: w)
  case Nil
  then show ?case by (simp add: ret_def)
next
  case (Cons n ns)
  show ?case
  proof (cases "truthy n \<and> isValidPhoneNumber n")
    case False
    obtain sent where s: "outbox (snd (notifyEach c who text ns (w\<lparr>console := console w @ [ConsoleWarn (''Skipping invalid '' @ who @ '' number: '' @ js_String n)]\<rparr>))) = outbox w @ sent"
      "\<forall>s \<in> set sent. fst (snd s) \<in> set ns \<and> isValidPhoneNumber (fst (snd s)) \<and> snd (snd s) = text"
      using Cons.IH[of "w\<lparr>console := console w @ [ConsoleWarn (''Skipping invalid '' @ who @ '' number: '' @ js_String n)]\<rparr>"] by auto
    show ?thesis using False s by (auto simp: andThen_def console_warn_def)
  next
    case True
    show ?thesis
    proof (cases "smsRejects c n text")
      case True
      with \<open>truthy n \<and> isValidPhoneNumber n\<close> show ?thesis
        by (simp add: andThen_def sendSMSWrapper_def)
    next
      case sms: False
      show ?thesis
      proof (cases "whatsAppRejects c n text")
        case True
        with sms \<open>truthy n \<and> isValidPhoneNumber n\<close> show ?thesis
          by (simp add: andThen_def sendSMSWrapper_def sendWhatsAppWrapper_def)
      next
        case False
        let ?w2 = "w\<lparr>outbox := outbox w @ [(SMS, n, text), (WhatsApp, n, text)]\<rparr>"
        obtain sent where s: "outbox (snd (notifyEach c who text ns ?w2)) = outbox ?w2 @ sent"
          "\<forall>s \<in> set sent. fst (snd s) \<in> set ns \<and> isValidPhoneNumber (fst (snd s)) \<and> snd (snd s) = text"
          using Cons.IH[of ?w2] by auto
        show ?thesis using False sms \<open>truthy n \<and> isValidPhoneNumber n\<close> s
          by (auto simp: andThen_def sendSMSWrapper_def sendWhatsAppWrapper_def)
      qed
    qed
  qed
qed

lemma notifyEach_stops:
  assumes "list_all (\<lambda>m. \<not> (isValidPhoneNumber m \<and> sendRejects c text m)) pre"
    and "isValidPhoneNumber n" and "sendRejects c text n"
  shows "fst (notifyEach c who text (pre @ n # post) w) =
           Inl (if smsRejects c n text then SmsError else WhatsAppError) \<and>
         outbox (snd (notifyEach c who text (pre @ n # post) w)) =
           outbox w @ concat (map (sendsTo text) (filter isValidPhoneNumber pre)) @
           sendsUntilReject c text n"
  using assms(1)
proof (induction pre arbitrary: w)
  case Nil
  show ?case using assms(2,3)
    by (auto simp: andThen_def sendSMSWrapper_def sendWhatsAppWrapper_def sendRejects_def
        sendsUntilReject_def isValidPhoneNumber_truthy)
next
  case (Cons m pre)
  then have pre: "list_all (\<lambda>m. \<not> (isValidPhoneNumber m \<and> sendRejects c text m)) pre"
    and m: "\<not> (isValidPhoneNumber m \<and> sendRejects c text m)" by simp_all
  show ?case
  proof (cases "isValidPhoneNumber m")
    case True
    with m have "\<not> smsRejects c m text" "\<not> whatsAppRejects c m text"
      by (simp_all add: sendRejects_def)
    with True show ?thesis
      using Cons.IH[OF pre, of "w\<lparr>outbox := outbox w @ [(SMS, m, text), (WhatsApp, m, text)]\<rparr>"]
      by (simp add: andThen_def sendSMSWrapper_def sendWhatsAppWrapper_def sendsTo_def
          isValidPhoneNumber_truthy)
  next
    case False
    then show ?thesis
      using Cons.IH[OF pre, of "w\<lparr>console := console w @ [ConsoleWarn (''Skipping invalid '' @ who @ '' number: '' @ js_String m)]\<rparr>"]
      by (simp add: andThen_def console_warn_def)
  qed
qed

lemma notifyEach_resolves:
  assumes "list_all (\<lambda>m. \<not> (isValidPhoneNumber m \<and> sendRejects c text m)) ns"
  shows "fst (notifyEach c who text ns w) = Inr () \<and>
         outbox (snd (notifyEach c who text ns w)) =
           outbox w @ concat (map (sendsTo text) (filter isValidPhoneNumber ns))"
  using assms
proof (induction ns arbitrary: w)
  case Nil
  show ?case by (simp add: ret_def)
next
  case (Cons m ns)
  then have ns: "list_all (\<lambda>m. \<not> (isValidPhoneNumber m \<and> sendRejects c text m)) ns"
    and m: "\<not> (isValidPhoneNumber m \<and> sendRejects c text m)" by simp_all
  show ?case
  proof (cases "isValidPhoneNumber m")
    case True
    with m have "\<not> smsRejects c m text" "\<not> whatsAppRejects c m text"
      by (simp_all add: sendRejects_def)
    with True show ?thesis
      using Cons.IH[OF ns, of "w\<lparr>outbox := outbox w @ [(SMS, m, text), (WhatsApp, m, text)]\<rparr>"]
      by (simp add: andThen_def sendSMSWrapper_def sendWhatsAppWrapper_def sendsTo_def
          isValidPhoneNumber_truthy)
  next
    case False
    then show ?thesis
      using Cons.IH[OF ns, of "w\<lparr>console := console w @ [ConsoleWarn (''Skipping invalid '' @ who @ '' number: '' @ js_String m)]\<rparr>"]
      by (simp add: andThen_def console_warn_def)
  qed
qed

subsection \<open>The stages of createWaterTest\<close>

lemma alertHandling_good: "alertHandling c ''good'' record loc formattedDate = ret ()"
  by (simp add: alertHandling_def)

lemma healthCardUpdate_apply:
  "healthCardUpdate c record u w =
     (Inr (),
      w\<lparr>healthCardCalls := healthCardCalls w @ [healthCardReqOf record u],
         console := console w @
           (if healthCardThrows c (healthCardReqOf record u)
            then [ConsoleError ''Error updating health card:'' HealthCardError] else [])\<rparr>)"
  by (simp add: healthCardUpdate_def tryCatch_def createOrUpdateHealthCard_def console_error_def)

lemma alertHandling_medium:
  assumes "\<not> dbRejects c UserFindMany" and "\<not> dbRejects c LeaderAlertCreateMany"
  shows "alertHandling c ''medium'' record loc fd w =
           notifyEach c ''leader'' (mediumAlertMessage record loc fd)
             (map u_number (recipients ''medium'' w))
             (w\<lparr>leaderAlerts := leaderAlerts w @
                  map (leaderAlertFor record) (recipients ''medium'' w)\<rparr>)"
  using assms
  by (simp add: alertHandling_def andThen_def ret_def user_findMany_def
      leaderAlert_createMany_def recipients_def)

lemma alertHandling_high:
  assumes "\<not> dbRejects c UserFindMany" and "\<not> dbRejects c GlobalAlertCreate"
  shows "alertHandling c ''high'' record loc fd w =
           notifyEach c ''user'' (highAlertMessage record loc fd)
             (map u_number (recipients ''high'' w))
             (w\<lparr>globalAlerts := globalAlerts w @ [globalAlertFor record]\<rparr>)"
  using assms
  by (simp add: alertHandling_def andThen_def ret_def user_findMany_def
      globalAlert_create_def recipients_def)

text \<open>The alert row is written before the users are loaded: it stays when the query rejects.\<close>

lemma alertHandling_high_query_rejects:
  assumes "dbRejects c UserFindMany" and "\<not> dbRejects c GlobalAlertCreate"
  shows "alertHandling c ''high'' record loc fd w =
           (Inl (PrismaError UserFindMany),
            w\<lparr>globalAlerts := globalAlerts w @ [globalAlertFor record]\<rparr>)"
  using assms
  by (simp add: alertHandling_def andThen_def user_findMany_def globalAlert_create_def)

lemma alertHandling_notify:
  assumes "nq = ''medium'' \<and> \<not> dbRejects c LeaderAlertCreateMany \<or>
           nq = ''high'' \<and> \<not> dbRejects c GlobalAlertCreate"
    and "\<not> dbRejects c UserFindMany"
  shows "alertHandling c nq record loc fd w =
           notifyEach c (if nq = ''medium'' then ''leader'' else ''user'')
             (if nq = ''medium'' then mediumAlertMessage record loc fd
              else highAlertMessage record loc fd)
             (map u_number (recipients nq w))
             (w\<lparr>leaderAlerts := leaderAlerts w @
                  (if nq = ''medium'' then map (leaderAlertFor record) (recipients nq w) else []),
                globalAlerts := globalAlerts w @
                  (if nq = ''high'' then [globalAlertFor record] else [])\<rparr>)"
  using assms alertHandling_medium [of c "record" loc fd w] alertHandling_high [of c "record" loc fd w]
  by auto

lemma alertHandling_waterTests:
  "waterTests (snd (alertHandling c nq record loc fd w)) = waterTests w"
  by (simp add: alertHandling_def andThen_def ret_def user_findMany_def
      leaderAlert_createMany_def globalAlert_create_def notifyEach_frame)

lemma createdRecord_id: "wt_id (createdRecord c req) = newId c"
  by (simp add: createdRecord_def)

lemma createWaterTest_try_valid:
  assumes "requiredPresent (body req)"
    and "user_role (user req) \<in> set [''asha'', ''admin'', ''leader'']"
    and "normalizedQuality req \<in> set [''good'', ''medium'', ''high'']"
    and "\<not> dbRejects c WaterTestCreate"
  shows "createWaterTest_try c req w =
           andThen (alertHandling c (normalizedQuality req) (createdRecord c req)
                      (location (body req)) (toLocaleString c (dateTime (body req)))) (\<lambda>_.
           andThen (healthCardUpdate c (createdRecord c req) (user req)) (\<lambda>_.
           ret (Response 201 (WaterTestId (newId c)))))
             (w\<lparr>waterTests := waterTests w @ [createdRecord c req]\<rparr>)"
  using assms
  by (auto simp: createWaterTest_try_def requiredPresent_def normalizedQuality_def Let_def
      andThen_def waterTest_create_def createdRecord_def split: prod.splits sum.splits)

text \<open>What a valid create leaves in the tables is what its alert handling leaves there.\<close>

lemma createWaterTest_valid_tables:
  assumes "requiredPresent (body req)"
    and "user_role (user req) \<in> set [''asha'', ''admin'', ''leader'']"
    and "normalizedQuality req \<in> set [''good'', ''medium'', ''high'']"
    and "\<not> dbRejects c WaterTestCreate"
    and "alertHandling c (normalizedQuality req) (createdRecord c req) (location (body req))
           (toLocaleString c (dateTime (body req)))
           (w\<lparr>waterTests := waterTests w @ [createdRecord c req]\<rparr>) = (r, w2)"
  shows "waterTests (snd (createWaterTest c req w)) = waterTests w2 \<and>
         leaderAlerts (snd (createWaterTest c req w)) = leaderAlerts w2 \<and>
         globalAlerts (snd (createWaterTest c req w)) = globalAlerts w2 \<and>
         outbox (snd (createWaterTest c req w)) = outbox w2"
  by (cases r)
    (simp_all add: createWaterTest_def handler_def createWaterTest_try_valid [OF assms(1-4)]
      andThen_def assms(5) healthCardUpdate_apply ret_def)

lemma createWaterTest_alert_exception:
  assumes "requiredPresent (body req)"
    and "user_role (user req) \<in> set [''asha'', ''admin'', ''leader'']"
    and "normalizedQuality req \<in> set [''good'', ''medium'', ''high'']"
    and "\<not> dbRejects c WaterTestCreate"
    and "alertHandling c (normalizedQuality req) (createdRecord c req) (location (body req))
           (toLocaleString c (dateTime (body req)))
           (w\<lparr>waterTests := waterTests w @ [createdRecord c req]\<rparr>) = (Inl e, w2)"
  shows "createWaterTest c req w =
           (Response 500 (Message ''Internal Server Error''),
            w2\<lparr>console := console w2 @ [ConsoleError ''createWaterTest error'' e]\<rparr>)"
  by (simp add: createWaterTest_def handler_def createWaterTest_try_valid [OF assms(1-4)]
      andThen_def assms(5))

text \<open>When no send rejects, a valid create of medium or high quality delivers to every valid number.\<close>

lemma createWaterTest_delivers:
  assumes "requiredPresent (body req)"
    and "user_role (user req) \<in> set [''asha'', ''admin'', ''leader'']"
    and "\<not> dbRejects c WaterTestCreate"
    and "\<not> dbRejects c UserFindMany"
    and "normalizedQuality req = ''medium'' \<and> \<not> dbRejects c LeaderAlertCreateMany \<or>
         normalizedQuality req = ''high'' \<and> \<not> dbRejects c GlobalAlertCreate"
    and "list_all (\<lambda>m. \<not> (isValidPhoneNumber m \<and> sendRejects c (alertMessage c req) m))
           (map u_number (recipients (normalizedQuality req) w))"
  shows "fst (createWaterTest c req w) = Response 201 (WaterTestId (newId c)) \<and>
         outbox (snd (createWaterTest c req w)) =
           outbox w @ concat (map (sendsTo (alertMessage c req))
             (filter isValidPhoneNumber (map u_number (recipients (normalizedQuality req) w))))"
proof -
  let ?nq = "normalizedQuality req"
  let ?rec = "createdRecord c req"
  let ?w1 = "w\<lparr>waterTests := waterTests w @ [?rec]\<rparr>"
  let ?w1' = "?w1\<lparr>leaderAlerts := leaderAlerts ?w1 @
                  (if ?nq = ''medium'' then map (leaderAlertFor ?rec) (recipients ?nq ?w1) else []),
                globalAlerts := globalAlerts ?w1 @
                  (if ?nq = ''high'' then [globalAlertFor ?rec] else [])\<rparr>"
  let ?who = "if ?nq = ''medium'' then ''leader'' else ''user''"
  let ?loop = "notifyEach c ?who (alertMessage c req) (map u_number (recipients ?nq w)) ?w1'"
  have q: "?nq \<in> set [''good'', ''medium'', ''high'']"
    using assms(5) by auto
  have rcp: "\<And>q. recipients q ?w1 = recipients q w"
    by (simp add: recipients_def)
  have ah: "alertHandling c ?nq ?rec (location (body req))
              (toLocaleString c (dateTime (body req))) ?w1 = ?loop"
    using alertHandling_notify [OF assms(5) assms(4), of ?rec "location (body req)"
        "toLocaleString c (dateTime (body req))" ?w1]
    by (simp add: rcp alertMessage_def)
  have ok: "fst ?loop = Inr ()"
    and box: "outbox (snd ?loop) = outbox ?w1' @ concat (map (sendsTo (alertMessage c req))
             (filter isValidPhoneNumber (map u_number (recipients ?nq w))))"
    using notifyEach_resolves [OF assms(6), of ?who ?w1'] by simp_all
  obtain w3 where loop: "?loop = (Inr (), w3)"
    using ok by (cases ?loop) auto
  have ah': "alertHandling c ?nq ?rec (location (body req))
              (toLocaleString c (dateTime (body req))) ?w1 = (Inr (), w3)"
    using ah loop by (simp only:)
  have "createWaterTest c req w =
          (Response 201 (WaterTestId (newId c)),
           snd (healthCardUpdate c ?rec (user req) w3))"
    by (simp add: createWaterTest_def handler_def createWaterTest_try_valid [OF assms(1,2) q assms(3)]
        andThen_def ah' healthCardUpdate_apply ret_def)
  then show ?thesis
    using box loop by (simp add: healthCardUpdate_apply)
qed

lemma createWaterTest_falsy_quality:
  assumes "\<not> truthy (quality (body req))"
  shows "createWaterTest c req w =
           (Response 400 (Message
              ''waterbodyName, dateTime, location, photoUrl, notes, quality are required''), w)"
  using assms
  by (simp add: createWaterTest_def handler_def createWaterTest_try_def Let_def ret_def)

lemma createWaterTest_invalid_quality:
  assumes "requiredPresent (body req)"
    and "user_role (user req) \<in> set [''asha'', ''admin'', ''leader'']"
    and "normalizedQuality req \<notin> set [''good'', ''medium'', ''high'']"
  shows "createWaterTest c req w = (Response 400 (Message ''invalid quality''), w)"
  using assms
  by (simp add: createWaterTest_def handler_def createWaterTest_try_def requiredPresent_def
      normalizedQuality_def Let_def ret_def)

lemma createWaterTest_quality_stored:
  assumes "requiredPresent (body req)"
    and "user_role (user req) \<in> set [''asha'', ''admin'', ''leader'']"
    and "normalizedQuality req \<in> set [''good'', ''medium'', ''high'']"
    and "\<not> dbRejects c WaterTestCreate"
  shows "waterTests (snd (createWaterTest c req w)) = waterTests w @ [createdRecord c req] \<and>
         wt_quality (createdRecord c req) = normalizedQuality req"
proof -
  let ?w1 = "w\<lparr>waterTests := waterTests w @ [createdRecord c req]\<rparr>"
  let ?ah = "alertHandling c (normalizedQuality req) (createdRecord c req) (location (body req))
           (toLocaleString c (dateTime (body req))) ?w1"
  have "?ah = (fst ?ah, snd ?ah)" by simp
  from createWaterTest_valid_tables [OF assms this]
  have "waterTests (snd (createWaterTest c req w)) = waterTests (snd ?ah)"
    by (rule conjunct1)
  then have "waterTests (snd (createWaterTest c req w)) = waterTests w @ [createdRecord c req]"
    by (simp add: alertHandling_waterTests)
  moreover have "wt_quality (createdRecord c req) = normalizedQuality req"
    by (simp add: createdRecord_def createData_def Let_def)
  ultimately show ?thesis by (rule conjI)
qed

subsection \<open>Evaluating the examples\<close>

lemma toLowerCase_Good: "toLowerCase ''Good'' = ''good''"
  by (simp add: toLowerCase_def toLowerChar_def)

lemma toLowerCase_Medium: "toLowerCase ''Medium'' = ''medium''"
  by (simp add: toLowerCase_def toLowerChar_def)

lemma toLowerCase_HIGH: "toLowerCase ''HIGH'' = ''high''"
  by (simp add: toLowerCase_def toLowerChar_def)

lemma ex_requiredPresent: "requiredPresent (body (ex_create (JStr (c # s)) u))"
  by (simp add: requiredPresent_def ex_create_def ex_body_def)

lemma ex_valid_numbers:
  "isValidPhoneNumber (JStr ''+911234567890'')" "\<not> isValidPhoneNumber (JStr ''invalid'')"
  "\<not> isValidPhoneNumber JNull"
  by (simp_all add: isDigit_def)

subsection \<open>The stages of updateWaterTest\<close>

lemma updateData_cases:
  "updateData b =
     (if truthy (quality b) \<and>
         toLowerCase (js_String (quality b)) \<notin> set [''good'', ''medium'', ''high'']
      then Inl (Response 400 (Message ''invalid quality''))
      else Inr
        \<lparr>d_waterbodyName = (if truthy (waterbodyName b) then Some (waterbodyName b) else None),
         d_waterbodyId =
           (if typeof (waterbodyId b) \<noteq> ''undefined''
            then Some (if truthy (waterbodyId b) then waterbodyId b else JNull) else None),
         d_dateTime = (if truthy (dateTime b) then Some (dateTime b) else None),
         d_location = (if truthy (location b) then Some (location b) else None),
         d_latitude = (if typeof (latitude b) = ''number'' then Some (latitude b) else None),
         d_longitude = (if typeof (longitude b) = ''number'' then Some (longitude b) else None),
         d_photoUrl = (if truthy (photoUrl b) then Some (photoUrl b) else None),
         d_notes = (if truthy (notes b) then Some (notes b) else None),
         d_quality =
           (if truthy (quality b) then Some (toLowerCase (js_String (quality b))) else None)\<rparr>)"
  by (simp add: updateData_def emptyData_def Let_def)

lemma applyData_keys:
  "wt_id (applyData d t) = wt_id t \<and> wt_ashaId (applyData d t) = wt_ashaId t \<and>
   wt_createdAt (applyData d t) = wt_createdAt t"
  by (simp add: applyData_def)

lemma updateWaterTest_rejects:
  assumes "found c req w existing" and "adminOrOwner req existing"
    and "updateData (body req) = Inl res"
  shows "updateWaterTest c req w = (res, w)"
  using assms
  by (simp add: found_def adminOrOwner_def updateWaterTest_def handler_def updateWaterTest_try_def
      andThen_def ret_def waterTest_findUnique_def)

lemma updateWaterTest_applies:
  assumes "found c req w existing" and "adminOrOwner req existing"
    and "updateData (body req) = Inr d" and "\<not> dbRejects c WaterTestUpdate"
  shows "updateWaterTest c req w =
           (Response 200 (WaterTestId (params_id req)),
            w\<lparr>waterTests :=
                map (\<lambda>t. if wt_id t = params_id req then patchedRow (body req) t else t)
                  (waterTests w)\<rparr>)"
proof -
  have "wt_id existing = params_id req"
    using assms(1) by (auto simp: found_def find_Some_iff)
  then show ?thesis
    using assms
    by (simp add: found_def adminOrOwner_def updateWaterTest_def handler_def
        updateWaterTest_try_def andThen_def ret_def waterTest_findUnique_def
        waterTest_update_def applyData_keys patchedRow_def)
qed

lemma updateData_invalid_quality:
  assumes "truthy (quality b)"
    and "toLowerCase (js_String (quality b)) \<notin> set [''good'', ''medium'', ''high'']"
  shows "updateData b = Inl (Response 400 (Message ''invalid quality''))"
  by (simp only: updateData_cases assms simp_thms if_True)

lemma patchedRow_quality:
  assumes "truthy (quality b)"
    and "toLowerCase (js_String (quality b)) \<in> set [''good'', ''medium'', ''high'']"
  shows "\<exists>d. updateData b = Inr d \<and>
             wt_quality (patchedRow b t) = toLowerCase (js_String (quality b))"
proof -
  have "\<not> (truthy (quality b) \<and>
         toLowerCase (js_String (quality b)) \<notin> set [''good'', ''medium'', ''high''])"
    using assms(2) by blast
  then obtain d where d: "updateData b = Inr d"
    "d_quality d = (if truthy (quality b) then Some (toLowerCase (js_String (quality b))) else None)"
    by (simp only: updateData_cases if_False) simp
  have "wt_quality (patchedRow b t) = toLowerCase (js_String (quality b))"
    by (simp add: patchedRow_def d assms(1) applyData_def setColumn_def)
  with d(1) show ?thesis by blast
qed

lemma updateWaterTest_quality_stored:
  assumes "found c req w existing" and "adminOrOwner req existing"
    and "truthy (quality (body req))"
    and "normalizedQuality req \<in> set [''good'', ''medium'', ''high'']"
    and "\<not> dbRejects c WaterTestUpdate"
  shows "map wt_quality (waterTests (snd (updateWaterTest c req w))) =
           map (\<lambda>t. if wt_id t = params_id req then normalizedQuality req else wt_quality t)
             (waterTests w)"
proof -
  have q: "toLowerCase (js_String (quality (body req))) \<in> set [''good'', ''medium'', ''high'']"
    using assms(4) by (simp only: normalizedQuality_def)
  obtain d where d: "updateData (body req) = Inr d"
    using patchedRow_quality [OF assms(3) q] by blast
  have row: "\<And>t. wt_quality (patchedRow (body req) t) = normalizedQuality req"
    using patchedRow_quality [OF assms(3) q] by (simp add: normalizedQuality_def)
  show ?thesis
    by (simp add: updateWaterTest_applies [OF assms(1,2) d assms(5)] row o_def if_distrib
        cong: if_cong)
qed

lemma patchedRow_falsy_quality:
  assumes "\<not> truthy (quality b)"
  shows "\<exists>d. updateData b = Inr d \<and> wt_quality (patchedRow b t) = wt_quality t"
proof -
  have "\<not> (truthy (quality b) \<and>
         toLowerCase (js_String (quality b)) \<notin> set [''good'', ''medium'', ''high''])"
    using assms by blast
  then obtain d where d: "updateData b = Inr d"
    "d_quality d = (if truthy (quality b) then Some (toLowerCase (js_String (quality b))) else None)"
    by (simp only: updateData_cases if_False) simp
  have "wt_quality (patchedRow b t) = wt_quality t"
    by (simp add: patchedRow_def d assms applyData_def setColumn_def)
  with d(1) show ?thesis by blast
qed

lemma updateWaterTest_falsy_quality:
  assumes "found c req w existing" and "adminOrOwner req existing"
    and "\<not> truthy (quality (body req))"
    and "\<not> dbRejects c WaterTestUpdate"
  shows "updateWaterTest c req w =
           (Response 200 (WaterTestId (params_id req)),
            w\<lparr>waterTests :=
                map (\<lambda>t. if wt_id t = params_id req then patchedRow (body req) t else t)
                  (waterTests w)\<rparr>) \<and>
         map wt_quality (waterTests (snd (updateWaterTest c req w))) =
           map wt_quality (waterTests w)"
proof -
  obtain d where d: "updateData (body req) = Inr d"
    using patchedRow_falsy_quality [OF assms(3)] by blast
  have row: "\<And>t. wt_quality (patchedRow (body req) t) = wt_quality t"
    using patchedRow_falsy_quality [OF assms(3)] by blast
  note run = updateWaterTest_applies [OF assms(1,2) d assms(4)]
  have "map wt_quality (waterTests (snd (updateWaterTest c req w))) =
           map wt_quality (waterTests w)"
    by (simp add: run row o_def if_distrib cong: if_cong)
  with run show ?thesis by (rule conjI)
qed

lemma ex_found: "found ex_collab (ex_update b u) ex_world ex_test"
  by (simp add: found_def ex_collab_def ex_update_def ex_world_def ex_test_def)

lemma ex_owner: "adminOrOwner (ex_update b ex_asha) ex_test"
  by (simp add: adminOrOwner_def ex_update_def ex_asha_def ex_test_def)

lemma ex_update_resolves: "\<not> dbRejects ex_collab WaterTestUpdate"
  by (simp add: ex_collab_def)

lemma toLowerCase_bad: "toLowerCase ''bad'' = ''bad''"
  by (simp add: toLowerCase_def toLowerChar_def)

lemma ex_role: "user_role (user (ex_create q ex_asha)) \<in> set [''asha'', ''admin'', ''leader'']"
  by (simp add: ex_create_def ex_asha_def)

lemma ex_create_resolves: "\<not> dbRejects ex_collab WaterTestCreate"
  by (simp add: ex_collab_def)

lemma ex_normalizedQuality:
  "normalizedQuality (ex_create (JStr s) u) = toLowerCase s"
  "normalizedQuality (ex_update (ex_patch\<lparr>quality := JStr s\<rparr>) u) = toLowerCase s"
  by (simp_all add: normalizedQuality_def ex_create_def ex_update_def)

lemma toLowerCase_High: "toLowerCase ''High'' = ''high''"
  by (simp add: toLowerCase_def toLowerChar_def)

subsection \<open>createWaterTest: medium quality\<close>

text \<open>
  C1, as amended. Let a create request pass the required-field test and the role test,
  its quality normalize to \<open>medium\<close>, and the store accept the new row, the user query and
  the alert rows. Then exactly one LeaderAlert is created for each user whose role is
  \<open>leader\<close>, in their order, each with the id of the new test; and every send that is
  attempted goes to the number of a leader that matches \<^verbatim>\<open>^\+\d{10,15}$\<close>. So a leader
  whose number is missing or invalid is sent nothing and still has a LeaderAlert.
\<close>

theorem createWaterTest_medium_leader_alerts:
  assumes "requiredPresent (body req)"
    and "user_role (user req) \<in> set [''asha'', ''admin'', ''leader'']"
    and "normalizedQuality req = ''medium''"
    and "\<not> dbRejects c WaterTestCreate"
    and "\<not> dbRejects c UserFindMany"
    and "\<not> dbRejects c LeaderAlertCreateMany"
  shows "waterTests (snd (createWaterTest c req w)) = waterTests w @ [createdRecord c req] \<and>
         leaderAlerts (snd (createWaterTest c req w)) =
           leaderAlerts w @
           map (leaderAlertFor (createdRecord c req))
             (filter (\<lambda>u. u_role u = ''leader'') (users w)) \<and>
         (\<exists>sent. outbox (snd (createWaterTest c req w)) = outbox w @ sent \<and>
            (\<forall>s \<in> set sent.
               isValidPhoneNumber (fst (snd s)) \<and>
               fst (snd s) \<in> set (map u_number (filter (\<lambda>u. u_role u = ''leader'') (users w)))))"
proof -
  let ?rec = "createdRecord c req"
  let ?w1 = "w\<lparr>waterTests := waterTests w @ [?rec]\<rparr>"
  let ?leaders = "filter (\<lambda>u. u_role u = ''leader'') (users w)"
  let ?text = "mediumAlertMessage ?rec (location (body req)) (toLocaleString c (dateTime (body req)))"
  let ?w1' = "?w1\<lparr>leaderAlerts := leaderAlerts w @ map (leaderAlertFor ?rec) ?leaders\<rparr>"
  let ?loop = "notifyEach c ''leader'' ?text (map u_number ?leaders) ?w1'"
  have q: "normalizedQuality req \<in> set [''good'', ''medium'', ''high'']"
    using assms(3) by simp
  have ah: "alertHandling c (normalizedQuality req) ?rec (location (body req))
              (toLocaleString c (dateTime (body req))) ?w1 = (fst ?loop, snd ?loop)"
    using alertHandling_medium [OF assms(5,6), of ?rec "location (body req)"
        "toLocaleString c (dateTime (body req))" ?w1]
    by (simp add: assms(3) recipients_def)
  note tables = createWaterTest_valid_tables [OF assms(1,2) q assms(4) ah]
  note frame = notifyEach_frame [of c "''leader''" ?text "map u_number ?leaders" ?w1']
  obtain sent where sent: "outbox (snd ?loop) = outbox ?w1' @ sent"
    "\<forall>s \<in> set sent. fst (snd s) \<in> set (map u_number ?leaders) \<and>
        isValidPhoneNumber (fst (snd s)) \<and> snd (snd s) = ?text"
    using notifyEach_outbox [of c "''leader''" ?text "map u_number ?leaders" ?w1'] by blast
  have "outbox (snd (createWaterTest c req w)) = outbox w @ sent"
    using tables sent(1) by simp
  moreover have "\<forall>s \<in> set sent. isValidPhoneNumber (fst (snd s)) \<and>
      fst (snd s) \<in> set (map u_number ?leaders)"
    using sent(2) by blast
  ultimately have box: "\<exists>sent. outbox (snd (createWaterTest c req w)) = outbox w @ sent \<and>
      (\<forall>s \<in> set sent. isValidPhoneNumber (fst (snd s)) \<and>
         fst (snd s) \<in> set (map u_number ?leaders))"
    by blast
  have "waterTests (snd (createWaterTest c req w)) = waterTests w @ [?rec]"
    using tables frame by simp
  moreover have "leaderAlerts (snd (createWaterTest c req w)) =
      leaderAlerts w @ map (leaderAlertFor ?rec) ?leaders"
    using tables frame by simp
  ultimately show ?thesis using box by blast
qed

text \<open>
  The scenario of the specification: two leaders, one with the number +911234567890 and
  one with the number \<open>invalid\<close>. Both have a LeaderAlert for the new test; the SMS and the
  WhatsApp message go to the first only.
\<close>

theorem createWaterTest_medium_leader_alerts_witness:
  "requiredPresent (body (ex_create (JStr ''Medium'') ex_asha)) \<and>
   user_role (user (ex_create (JStr ''Medium'') ex_asha)) \<in> set [''asha'', ''admin'', ''leader''] \<and>
   normalizedQuality (ex_create (JStr ''Medium'') ex_asha) = ''medium'' \<and>
   map u_number (filter (\<lambda>u. u_role u = ''leader'') (users ex_world)) =
     [JStr ''+911234567890'', JStr ''invalid''] \<and>
   fst (createWaterTest ex_collab (ex_create (JStr ''Medium'') ex_asha) ex_world) =
     Response 201 (WaterTestId ''t1'') \<and>
   map (\<lambda>a. (la_leaderId a, la_waterTestId a))
     (leaderAlerts (snd (createWaterTest ex_collab (ex_create (JStr ''Medium'') ex_asha) ex_world))) =
     [(''l1'', ''t1''), (''l2'', ''t1'')] \<and>
   map (\<lambda>s. (fst s, fst (snd s)))
     (outbox (snd (createWaterTest ex_collab (ex_create (JStr ''Medium'') ex_asha) ex_world))) =
     [(SMS, JStr ''+911234567890''), (WhatsApp, JStr ''+911234567890'')]"
proof -
  let ?c = ex_collab
  let ?r = "ex_create (JStr ''Medium'') ex_asha"
  let ?W = ex_world
  have h1: "requiredPresent (body ?r)" by (rule ex_requiredPresent)
  have h2: "user_role (user ?r) \<in> set [''asha'', ''admin'', ''leader'']"
    by (simp add: ex_create_def ex_asha_def)
  have nq: "normalizedQuality ?r = ''medium''"
    by (simp add: normalizedQuality_def ex_create_def toLowerCase_Medium)
  have h4: "\<not> dbRejects ?c WaterTestCreate" by (simp add: ex_collab_def)
  have h5: "\<not> dbRejects ?c UserFindMany" by (simp add: ex_collab_def)
  have h6: "\<not> dbRejects ?c LeaderAlertCreateMany" by (simp add: ex_collab_def)
  have h56: "normalizedQuality ?r = ''medium'' \<and> \<not> dbRejects ?c LeaderAlertCreateMany \<or>
             normalizedQuality ?r = ''high'' \<and> \<not> dbRejects ?c GlobalAlertCreate"
    using nq h6 by simp
  have ld: "filter (\<lambda>u. u_role u = ''leader'') (users ?W) = [ex_users ! 0, ex_users ! 1]"
    by (simp add: ex_world_def ex_users_def)
  have nums: "map u_number (filter (\<lambda>u. u_role u = ''leader'') (users ?W)) =
     [JStr ''+911234567890'', JStr ''invalid'']"
    by (simp add: ld) (simp add: ex_users_def)
  have rc: "map u_number (recipients (normalizedQuality ?r) ?W) =
     [JStr ''+911234567890'', JStr ''invalid'']"
    using nums by (simp add: nq recipients_def)
  have nr: "list_all (\<lambda>m. \<not> (isValidPhoneNumber m \<and> sendRejects ?c (alertMessage ?c ?r) m))
           (map u_number (recipients (normalizedQuality ?r) ?W))"
    by (simp only: rc) (simp add: sendRejects_def ex_collab_def)
  have fl: "filter isValidPhoneNumber [JStr ''+911234567890'', JStr ''invalid''] =
     [JStr ''+911234567890'']"
    using ex_valid_numbers by simp
  have w0: "leaderAlerts ?W = []" "outbox ?W = []"
    by (simp_all add: ex_world_def)
  have id: "newId ?c = ''t1''" by (simp add: ex_collab_def)
  note d = createWaterTest_delivers [OF h1 h2 h4 h5 h56 nr]
  note t = createWaterTest_medium_leader_alerts [OF h1 h2 nq h4 h5 h6, of ?W]
  have r1: "fst (createWaterTest ?c ?r ?W) = Response 201 (WaterTestId ''t1'')"
    by (simp only: d [THEN conjunct1] id)
  have r2: "map (\<lambda>a. (la_leaderId a, la_waterTestId a))
     (leaderAlerts (snd (createWaterTest ?c ?r ?W))) = [(''l1'', ''t1''), (''l2'', ''t1'')]"
    by (simp only: t [THEN conjunct2, THEN conjunct1] ld w0 append_Nil)
      (simp add: leaderAlertFor_def createdRecord_id id ex_users_def)
  have r3: "map (\<lambda>s. (fst s, fst (snd s))) (outbox (snd (createWaterTest ?c ?r ?W))) =
     [(SMS, JStr ''+911234567890''), (WhatsApp, JStr ''+911234567890'')]"
    by (simp only: d [THEN conjunct2] rc fl w0) (simp add: sendsTo_def)
  from h1 h2 nq nums r1 r2 r3 show ?thesis by (intro conjI)
qed

text \<open>
  Without the two tests the property fails: a caller of role \<open>guest\<close> sends a complete body
  with quality \<open>Medium\<close> to a store with two leaders. The role test answers 403 and no
  LeaderAlert is created.
\<close>

theorem createWaterTest_medium_leader_alerts_counterexample:
  "normalizedQuality (ex_create (JStr ''Medium'') ex_guest) = ''medium'' \<and>
   map u_id (filter (\<lambda>u. u_role u = ''leader'') (users ex_world)) = [''l1'', ''l2''] \<and>
   createWaterTest ex_collab (ex_create (JStr ''Medium'') ex_guest) ex_world =
     (Response 403 (Message ''forbidden''), ex_world) \<and>
   leaderAlerts ex_world = []"
proof -
  have "normalizedQuality (ex_create (JStr ''Medium'') ex_guest) = ''medium''"
    by (simp add: normalizedQuality_def ex_create_def toLowerCase_Medium)
  moreover have "map u_id (filter (\<lambda>u. u_role u = ''leader'') (users ex_world)) = [''l1'', ''l2'']"
    by (simp add: ex_world_def ex_users_def)
  moreover have "createWaterTest ex_collab (ex_create (JStr ''Medium'') ex_guest) ex_world =
     (Response 403 (Message ''forbidden''), ex_world)"
    by (simp add: createWaterTest_def handler_def createWaterTest_try_def Let_def ret_def
        ex_create_def ex_body_def ex_guest_def)
  moreover have "leaderAlerts ex_world = []" by (simp add: ex_world_def)
  ultimately show ?thesis by (intro conjI)
qed

subsection \<open>createWaterTest: high quality\<close>

text \<open>
  C2, as amended. Let a create request pass the required-field test and the role test,
  its quality normalize to \<open>high\<close>, and the store accept the new row and the alert row.
  Then exactly one GlobalAlert is created; its message is U+1F6A8, then
  \<open>High Risk Water Quality detected at\<close> and the waterbody name, and it carries the id of
  the new test; and every send that is attempted goes to the number of a user, of any
  role, that matches \<^verbatim>\<open>^\+\d{10,15}$\<close>. The alert row is written before the users are
  loaded, so this holds whether the user query resolves or rejects.
\<close>

theorem createWaterTest_high_global_alert:
  assumes "requiredPresent (body req)"
    and "user_role (user req) \<in> set [''asha'', ''admin'', ''leader'']"
    and "normalizedQuality req = ''high''"
    and "\<not> dbRejects c WaterTestCreate"
    and "\<not> dbRejects c GlobalAlertCreate"
  shows "waterTests (snd (createWaterTest c req w)) = waterTests w @ [createdRecord c req] \<and>
         globalAlerts (snd (createWaterTest c req w)) =
           globalAlerts w @
           [\<lparr>ga_message = policeLight @ '' High Risk Water Quality detected at '' @
                          js_String (waterbodyName (body req)),
             ga_waterTestId = wt_id (createdRecord c req)\<rparr>] \<and>
         (\<exists>sent. outbox (snd (createWaterTest c req w)) = outbox w @ sent \<and>
            (\<forall>s \<in> set sent.
               isValidPhoneNumber (fst (snd s)) \<and> fst (snd s) \<in> set (map u_number (users w))))"
proof -
  let ?rec = "createdRecord c req"
  let ?w1 = "w\<lparr>waterTests := waterTests w @ [?rec]\<rparr>"
  let ?text = "highAlertMessage ?rec (location (body req)) (toLocaleString c (dateTime (body req)))"
  let ?w1' = "?w1\<lparr>globalAlerts := globalAlerts w @ [globalAlertFor ?rec]\<rparr>"
  let ?loop = "notifyEach c ''user'' ?text (map u_number (users w)) ?w1'"
  let ?ah = "alertHandling c (normalizedQuality req) ?rec (location (body req))
              (toLocaleString c (dateTime (body req))) ?w1"
  have q: "normalizedQuality req \<in> set [''good'', ''medium'', ''high'']"
    using assms(3) by simp
  have stage: "waterTests (snd ?ah) = waterTests w @ [?rec] \<and>
      globalAlerts (snd ?ah) = globalAlerts w @ [globalAlertFor ?rec] \<and>
      (\<exists>sent. outbox (snd ?ah) = outbox w @ sent \<and>
         (\<forall>s \<in> set sent. isValidPhoneNumber (fst (snd s)) \<and>
            fst (snd s) \<in> set (map u_number (users w))))"
  proof (cases "dbRejects c UserFindMany")
    case True
    have "?ah = (Inl (PrismaError UserFindMany), ?w1')"
      using alertHandling_high_query_rejects [OF True assms(5), of ?rec "location (body req)"
          "toLocaleString c (dateTime (body req))" ?w1]
      by (simp add: assms(3))
    then show ?thesis by simp
  next
    case False
    have ah: "?ah = ?loop"
      using alertHandling_high [OF False assms(5), of ?rec "location (body req)"
          "toLocaleString c (dateTime (body req))" ?w1]
      by (simp add: assms(3) recipients_def)
    note frame = notifyEach_frame [of c "''user''" ?text "map u_number (users w)" ?w1']
    obtain sent where sent: "outbox (snd ?loop) = outbox ?w1' @ sent"
      "\<forall>s \<in> set sent. fst (snd s) \<in> set (map u_number (users w)) \<and>
          isValidPhoneNumber (fst (snd s)) \<and> snd (snd s) = ?text"
      using notifyEach_outbox [of c "''user''" ?text "map u_number (users w)" ?w1'] by blast
    have "outbox (snd ?loop) = outbox w @ sent"
      using sent(1) by simp
    moreover have "\<forall>s \<in> set sent. isValidPhoneNumber (fst (snd s)) \<and>
        fst (snd s) \<in> set (map u_number (users w))"
      using sent(2) by blast
    ultimately have "\<exists>sent. outbox (snd ?loop) = outbox w @ sent \<and>
        (\<forall>s \<in> set sent. isValidPhoneNumber (fst (snd s)) \<and>
           fst (snd s) \<in> set (map u_number (users w)))"
      by blast
    moreover have "waterTests (snd ?loop) = waterTests w @ [?rec]"
      using frame by simp
    moreover have "globalAlerts (snd ?loop) = globalAlerts w @ [globalAlertFor ?rec]"
      using frame by simp
    ultimately show ?thesis by (simp only: ah)
  qed
  have "?ah = (fst ?ah, snd ?ah)" by simp
  note tables = createWaterTest_valid_tables [OF assms(1,2) q assms(4) this]
  have name: "wt_waterbodyName ?rec = waterbodyName (body req)"
    by (simp add: createdRecord_def createData_def Let_def)
  have ga: "globalAlertFor ?rec =
      \<lparr>ga_message = policeLight @ '' High Risk Water Quality detected at '' @
                     js_String (waterbodyName (body req)),
        ga_waterTestId = wt_id ?rec\<rparr>"
    by (simp add: globalAlertFor_def name)
  have t1: "waterTests (snd (createWaterTest c req w)) = waterTests (snd ?ah)"
    and t3: "globalAlerts (snd (createWaterTest c req w)) = globalAlerts (snd ?ah)"
    and t4: "outbox (snd (createWaterTest c req w)) = outbox (snd ?ah)"
    using tables by blast+
  show ?thesis
    unfolding t1 t3 t4 ga [symmetric] by (rule stage)
qed


theorem createWaterTest_high_global_alert_witness:
  "requiredPresent (body (ex_create (JStr ''HIGH'') ex_asha)) \<and>
   user_role (user (ex_create (JStr ''HIGH'') ex_asha)) \<in> set [''asha'', ''admin'', ''leader''] \<and>
   normalizedQuality (ex_create (JStr ''HIGH'') ex_asha) = ''high'' \<and>
   map u_number (users ex_world) = [JStr ''+911234567890'', JStr ''invalid'', JNull] \<and>
   fst (createWaterTest ex_collab (ex_create (JStr ''HIGH'') ex_asha) ex_world) =
     Response 201 (WaterTestId ''t1'') \<and>
   globalAlerts (snd (createWaterTest ex_collab (ex_create (JStr ''HIGH'') ex_asha) ex_world)) =
     [\<lparr>ga_message = policeLight @ '' High Risk Water Quality detected at Lake'',
       ga_waterTestId = ''t1''\<rparr>] \<and>
   map (\<lambda>s. (fst s, fst (snd s)))
     (outbox (snd (createWaterTest ex_collab (ex_create (JStr ''HIGH'') ex_asha) ex_world))) =
     [(SMS, JStr ''+911234567890''), (WhatsApp, JStr ''+911234567890'')] \<and>
   dbRejects (ex_collab\<lparr>dbRejects := \<lambda>call. call = UserFindMany\<rparr>) UserFindMany \<and>
   globalAlerts (snd (createWaterTest (ex_collab\<lparr>dbRejects := \<lambda>call. call = UserFindMany\<rparr>)
     (ex_create (JStr ''HIGH'') ex_asha) ex_world)) =
     [\<lparr>ga_message = policeLight @ '' High Risk Water Quality detected at Lake'',
       ga_waterTestId = ''t1''\<rparr>]"
proof -
  let ?c = ex_collab
  let ?c' = "ex_collab\<lparr>dbRejects := \<lambda>call. call = UserFindMany\<rparr>"
  let ?r = "ex_create (JStr ''HIGH'') ex_asha"
  let ?W = ex_world
  have h1: "requiredPresent (body ?r)" by (rule ex_requiredPresent)
  have h2: "user_role (user ?r) \<in> set [''asha'', ''admin'', ''leader'']"
    by (simp add: ex_create_def ex_asha_def)
  have nq: "normalizedQuality ?r = ''high''"
    by (simp add: normalizedQuality_def ex_create_def toLowerCase_HIGH)
  have h4: "\<not> dbRejects ?c WaterTestCreate" by (simp add: ex_collab_def)
  have h5: "\<not> dbRejects ?c UserFindMany" by (simp add: ex_collab_def)
  have h6: "\<not> dbRejects ?c GlobalAlertCreate" by (simp add: ex_collab_def)
  have h56: "normalizedQuality ?r = ''medium'' \<and> \<not> dbRejects ?c LeaderAlertCreateMany \<or>
             normalizedQuality ?r = ''high'' \<and> \<not> dbRejects ?c GlobalAlertCreate"
    using nq h6 by simp
  have nums: "map u_number (users ?W) = [JStr ''+911234567890'', JStr ''invalid'', JNull]"
    by (simp add: ex_world_def ex_users_def)
  have rc: "map u_number (recipients (normalizedQuality ?r) ?W) =
     [JStr ''+911234567890'', JStr ''invalid'', JNull]"
    using nums by (simp add: nq recipients_def)
  have nr: "list_all (\<lambda>m. \<not> (isValidPhoneNumber m \<and> sendRejects ?c (alertMessage ?c ?r) m))
           (map u_number (recipients (normalizedQuality ?r) ?W))"
    by (simp only: rc) (simp add: sendRejects_def ex_collab_def)
  have fl: "filter isValidPhoneNumber [JStr ''+911234567890'', JStr ''invalid'', JNull] =
     [JStr ''+911234567890'']"
    using ex_valid_numbers by simp
  have w0: "globalAlerts ?W = []" "outbox ?W = []"
    by (simp_all add: ex_world_def)
  have id: "newId ?c = ''t1''" by (simp add: ex_collab_def)
  have nm: "js_String (waterbodyName (body ?r)) = ''Lake''"
    by (simp add: ex_create_def ex_body_def)
  note d = createWaterTest_delivers [OF h1 h2 h4 h5 h56 nr]
  note t = createWaterTest_high_global_alert [OF h1 h2 nq h4 h6, of ?W]
  have r1: "fst (createWaterTest ?c ?r ?W) = Response 201 (WaterTestId ''t1'')"
    by (simp only: d [THEN conjunct1] id)
  have r2: "globalAlerts (snd (createWaterTest ?c ?r ?W)) =
     [\<lparr>ga_message = policeLight @ '' High Risk Water Quality detected at Lake'',
       ga_waterTestId = ''t1''\<rparr>]"
    by (simp only: t [THEN conjunct2, THEN conjunct1] w0 append_Nil nm createdRecord_id id)
      simp
  have r3: "map (\<lambda>s. (fst s, fst (snd s))) (outbox (snd (createWaterTest ?c ?r ?W))) =
     [(SMS, JStr ''+911234567890''), (WhatsApp, JStr ''+911234567890'')]"
    by (simp only: d [THEN conjunct2] rc fl w0) (simp add: sendsTo_def)
  have h4': "\<not> dbRejects ?c' WaterTestCreate" and h6': "\<not> dbRejects ?c' GlobalAlertCreate"
    and h5': "dbRejects ?c' UserFindMany"
    by simp_all
  have id': "newId ?c' = ''t1''" by (simp add: ex_collab_def)
  note t' = createWaterTest_high_global_alert [OF h1 h2 nq h4' h6', of ?W]
  have r4: "globalAlerts (snd (createWaterTest ?c' ?r ?W)) =
     [\<lparr>ga_message = policeLight @ '' High Risk Water Quality detected at Lake'',
       ga_waterTestId = ''t1''\<rparr>]"
    by (simp only: t' [THEN conjunct2, THEN conjunct1] w0 append_Nil nm createdRecord_id id')
      simp
  from h1 h2 nq nums r1 r2 r3 h5' r4 show ?thesis by (intro conjI)
qed

text \<open>
  Without the two tests the property fails: a caller of role \<open>guest\<close> sends a complete body
  with quality \<open>HIGH\<close>. The role test answers 403 and no GlobalAlert is created.
\<close>

theorem createWaterTest_high_global_alert_counterexample:
  "normalizedQuality (ex_create (JStr ''HIGH'') ex_guest) = ''high'' \<and>
   createWaterTest ex_collab (ex_create (JStr ''HIGH'') ex_guest) ex_world =
     (Response 403 (Message ''forbidden''), ex_world) \<and>
   globalAlerts ex_world = []"
proof -
  have "normalizedQuality (ex_create (JStr ''HIGH'') ex_guest) = ''high''"
    by (simp add: normalizedQuality_def ex_create_def toLowerCase_HIGH)
  moreover have "createWaterTest ex_collab (ex_create (JStr ''HIGH'') ex_guest) ex_world =
     (Response 403 (Message ''forbidden''), ex_world)"
    by (simp add: createWaterTest_def handler_def createWaterTest_try_def Let_def ret_def
        ex_create_def ex_body_def ex_guest_def)
  moreover have "globalAlerts ex_world = []" by (simp add: ex_world_def)
  ultimately show ?thesis by (intro conjI)
qed

subsection \<open>createWaterTest: good quality\<close>

text \<open>
  C3. A create request whose quality normalizes to \<open>good\<close> creates no LeaderAlert and no
  GlobalAlert and attempts no SMS or WhatsApp send. This holds for every such request, the
  valid ones among them, and whatever the collaborators answer.
\<close>

theorem createWaterTest_good_no_fanout:
  assumes "normalizedQuality req = ''good''"
  shows "leaderAlerts (snd (createWaterTest c req w)) = leaderAlerts w \<and>
         globalAlerts (snd (createWaterTest c req w)) = globalAlerts w \<and>
         outbox (snd (createWaterTest c req w)) = outbox w"
  using assms
  by (simp add: normalizedQuality_def createWaterTest_def handler_def createWaterTest_try_def
      Let_def andThen_def ret_def waterTest_create_def alertHandling_good healthCardUpdate_apply)

theorem createWaterTest_good_no_fanout_witness:
  "normalizedQuality \<lparr>body = ex_body\<lparr>quality := JStr ''Good''\<rparr>, user = ex_asha, params_id = []\<rparr> = ''good'' \<and>
   fst (createWaterTest ex_collab
          \<lparr>body = ex_body\<lparr>quality := JStr ''Good''\<rparr>, user = ex_asha, params_id = []\<rparr> ex_world) =
     Response 201 (WaterTestId ''t1'') \<and>
   leaderAlerts (snd (createWaterTest ex_collab
          \<lparr>body = ex_body\<lparr>quality := JStr ''Good''\<rparr>, user = ex_asha, params_id = []\<rparr> ex_world)) = [] \<and>
   globalAlerts (snd (createWaterTest ex_collab
          \<lparr>body = ex_body\<lparr>quality := JStr ''Good''\<rparr>, user = ex_asha, params_id = []\<rparr> ex_world)) = [] \<and>
   outbox (snd (createWaterTest ex_collab
          \<lparr>body = ex_body\<lparr>quality := JStr ''Good''\<rparr>, user = ex_asha, params_id = []\<rparr> ex_world)) = []"
proof -
  have q: "normalizedQuality \<lparr>body = ex_body\<lparr>quality := JStr ''Good''\<rparr>, user = ex_asha, params_id = []\<rparr> = ''good''"
    by (simp add: normalizedQuality_def toLowerCase_Good)
  have r: "fst (createWaterTest ex_collab
          \<lparr>body = ex_body\<lparr>quality := JStr ''Good''\<rparr>, user = ex_asha, params_id = []\<rparr> ex_world) =
     Response 201 (WaterTestId ''t1'')"
    by (simp add: createWaterTest_def handler_def createWaterTest_try_def Let_def andThen_def
        ret_def waterTest_create_def toLowerCase_Good alertHandling_good healthCardUpdate_apply
        ex_body_def ex_asha_def ex_collab_def)
  show ?thesis
    using createWaterTest_good_no_fanout [OF q, of ex_collab ex_world] q r
    by (simp add: ex_world_def)
qed

subsection \<open>The quality field in create and update\<close>

text \<open>
  C4, as amended. In \<^verbatim>\<open>createWaterTest\<close> and \<^verbatim>\<open>updateWaterTest\<close> a truthy quality is
  normalized by \<^verbatim>\<open>String(quality).toLowerCase()\<close> before it is stored, so that HIGH, High
  and high are all stored as high. A truthy quality whose normalized form is not one of
  good, medium, high is answered 400 with the message \<open>invalid quality\<close> and nothing is
  written or modified, once the request has passed the earlier tests of its handler: in
  create, every required field truthy and the role one of asha, admin, leader; in update,
  the record found and the caller admin or owner. A falsy quality is never answered
  \<open>invalid quality\<close>: create answers it 400 with the message of the required fields and
  writes nothing; update, with the record found, the caller admin or owner and the store
  accepting the update, answers 200, applies the patch of the other fields and keeps the
  stored quality of every row.
\<close>

theorem quality_normalized_or_rejected:
  "(requiredPresent (body req) \<and>
    user_role (user req) \<in> set [''asha'', ''admin'', ''leader''] \<and>
    normalizedQuality req \<notin> set [''good'', ''medium'', ''high''] \<longrightarrow>
      createWaterTest c req w = (Response 400 (Message ''invalid quality''), w)) \<and>
   (requiredPresent (body req) \<and>
    user_role (user req) \<in> set [''asha'', ''admin'', ''leader''] \<and>
    normalizedQuality req \<in> set [''good'', ''medium'', ''high''] \<and>
    \<not> dbRejects c WaterTestCreate \<longrightarrow>
      waterTests (snd (createWaterTest c req w)) = waterTests w @ [createdRecord c req] \<and>
      wt_quality (createdRecord c req) = normalizedQuality req) \<and>
   (found c req w existing \<and> adminOrOwner req existing \<and> truthy (quality (body req)) \<and>
    normalizedQuality req \<notin> set [''good'', ''medium'', ''high''] \<longrightarrow>
      updateWaterTest c req w = (Response 400 (Message ''invalid quality''), w)) \<and>
   (found c req w existing \<and> adminOrOwner req existing \<and> truthy (quality (body req)) \<and>
    normalizedQuality req \<in> set [''good'', ''medium'', ''high''] \<and>
    \<not> dbRejects c WaterTestUpdate \<longrightarrow>
      map wt_quality (waterTests (snd (updateWaterTest c req w))) =
        map (\<lambda>t. if wt_id t = params_id req then normalizedQuality req else wt_quality t)
          (waterTests w)) \<and>
   (\<not> truthy (quality (body req)) \<longrightarrow>
      createWaterTest c req w =
        (Response 400 (Message
           ''waterbodyName, dateTime, location, photoUrl, notes, quality are required''), w)) \<and>
   (found c req w existing \<and> adminOrOwner req existing \<and> \<not> truthy (quality (body req)) \<and>
    \<not> dbRejects c WaterTestUpdate \<longrightarrow>
      updateWaterTest c req w =
        (Response 200 (WaterTestId (params_id req)),
         w\<lparr>waterTests :=
             map (\<lambda>t. if wt_id t = params_id req then patchedRow (body req) t else t)
               (waterTests w)\<rparr>) \<and>
      map wt_quality (waterTests (snd (updateWaterTest c req w))) =
        map wt_quality (waterTests w)) \<and>
   toLowerCase (js_String (JStr ''HIGH'')) = ''high'' \<and>
   toLowerCase (js_String (JStr ''High'')) = ''high'' \<and>
   toLowerCase (js_String (JStr ''high'')) = ''high''"
proof (intro conjI impI)
  assume "requiredPresent (body req) \<and>
    user_role (user req) \<in> set [''asha'', ''admin'', ''leader''] \<and>
    normalizedQuality req \<notin> set [''good'', ''medium'', ''high'']"
  then show "createWaterTest c req w = (Response 400 (Message ''invalid quality''), w)"
    using createWaterTest_invalid_quality by blast
next
  assume a: "requiredPresent (body req) \<and>
    user_role (user req) \<in> set [''asha'', ''admin'', ''leader''] \<and>
    normalizedQuality req \<in> set [''good'', ''medium'', ''high''] \<and>
    \<not> dbRejects c WaterTestCreate"
  then show "waterTests (snd (createWaterTest c req w)) = waterTests w @ [createdRecord c req]"
    using createWaterTest_quality_stored by blast
  show "wt_quality (createdRecord c req) = normalizedQuality req"
    using a createWaterTest_quality_stored by blast
next
  assume a: "found c req w existing \<and> adminOrOwner req existing \<and> truthy (quality (body req)) \<and>
    normalizedQuality req \<notin> set [''good'', ''medium'', ''high'']"
  then have "updateData (body req) = Inl (Response 400 (Message ''invalid quality''))"
    using updateData_invalid_quality [of "body req"] by (simp add: normalizedQuality_def)
  with a show "updateWaterTest c req w = (Response 400 (Message ''invalid quality''), w)"
    using updateWaterTest_rejects by blast
next
  assume "found c req w existing \<and> adminOrOwner req existing \<and> truthy (quality (body req)) \<and>
    normalizedQuality req \<in> set [''good'', ''medium'', ''high''] \<and>
    \<not> dbRejects c WaterTestUpdate"
  then show "map wt_quality (waterTests (snd (updateWaterTest c req w))) =
        map (\<lambda>t. if wt_id t = params_id req then normalizedQuality req else wt_quality t)
          (waterTests w)"
    using updateWaterTest_quality_stored by blast
next
  assume "\<not> truthy (quality (body req))"
  then show "createWaterTest c req w =
        (Response 400 (Message
           ''waterbodyName, dateTime, location, photoUrl, notes, quality are required''), w)"
    by (rule createWaterTest_falsy_quality)
next
  assume a: "found c req w existing \<and> adminOrOwner req existing \<and>
    \<not> truthy (quality (body req)) \<and> \<not> dbRejects c WaterTestUpdate"
  then show "updateWaterTest c req w =
        (Response 200 (WaterTestId (params_id req)),
         w\<lparr>waterTests :=
             map (\<lambda>t. if wt_id t = params_id req then patchedRow (body req) t else t)
               (waterTests w)\<rparr>)"
    using updateWaterTest_falsy_quality by blast
  show "map wt_quality (waterTests (snd (updateWaterTest c req w))) =
        map wt_quality (waterTests w)"
    using a updateWaterTest_falsy_quality by blast
next
  show "toLowerCase (js_String (JStr ''HIGH'')) = ''high''"
    by (simp add: toLowerCase_def toLowerChar_def)
  show "toLowerCase (js_String (JStr ''High'')) = ''high''"
    by (simp add: toLowerCase_def toLowerChar_def)
  show "toLowerCase (js_String (JStr ''high'')) = ''high''"
    by (simp add: toLowerCase_def toLowerChar_def)
qed

theorem quality_normalized_or_rejected_witness:
  "createWaterTest ex_collab (ex_create (JStr ''bad'') ex_asha) ex_world =
     (Response 400 (Message ''invalid quality''), ex_world) \<and>
   map wt_quality (waterTests (snd (createWaterTest ex_collab (ex_create (JStr ''HIGH'') ex_asha)
     ex_world))) = [''good'', ''high''] \<and>
   updateWaterTest ex_collab (ex_update (ex_patch\<lparr>quality := JStr ''bad''\<rparr>) ex_asha) ex_world =
     (Response 400 (Message ''invalid quality''), ex_world) \<and>
   map wt_quality (waterTests (snd (updateWaterTest ex_collab
     (ex_update (ex_patch\<lparr>quality := JStr ''High''\<rparr>) ex_asha) ex_world))) = [''high''] \<and>
   createWaterTest ex_collab (ex_create (JNum 0) ex_asha) ex_world =
     (Response 400 (Message
        ''waterbodyName, dateTime, location, photoUrl, notes, quality are required''), ex_world) \<and>
   fst (updateWaterTest ex_collab
     (ex_update (ex_patch\<lparr>notes := JStr ''edited'', quality := JBool False\<rparr>) ex_asha) ex_world) =
     Response 200 (WaterTestId ''t0'') \<and>
   map wt_notes (waterTests (snd (updateWaterTest ex_collab
     (ex_update (ex_patch\<lparr>notes := JStr ''edited'', quality := JBool False\<rparr>) ex_asha) ex_world))) =
     [JStr ''edited''] \<and>
   map wt_quality (waterTests (snd (updateWaterTest ex_collab
     (ex_update (ex_patch\<lparr>notes := JStr ''edited'', quality := JBool False\<rparr>) ex_asha) ex_world))) =
     [''good'']"
proof -
  let ?c1 = "ex_create (JStr ''bad'') ex_asha"
  let ?c2 = "ex_create (JStr ''HIGH'') ex_asha"
  let ?u1 = "ex_update (ex_patch\<lparr>quality := JStr ''bad''\<rparr>) ex_asha"
  let ?u2 = "ex_update (ex_patch\<lparr>quality := JStr ''High''\<rparr>) ex_asha"
  have bad: "toLowerCase ''bad'' \<notin> set [''good'', ''medium'', ''high'']"
    by (simp add: toLowerCase_bad)
  have high: "toLowerCase ''HIGH'' \<in> set [''good'', ''medium'', ''high'']"
    "toLowerCase ''High'' \<in> set [''good'', ''medium'', ''high'']"
    by (simp_all add: toLowerCase_HIGH toLowerCase_High)
  have tq: "truthy (quality (body ?u1))" "truthy (quality (body ?u2))"
    by (simp_all add: ex_update_def)
  have ts: "waterTests ex_world = [ex_test]" by (simp add: ex_world_def)
  have q0: "wt_quality ex_test = ''good''" "wt_id ex_test = ''t0''" by (simp_all add: ex_test_def)
  have i: "params_id ?u2 = ''t0''" by (simp add: ex_update_def)
  have nq: "normalizedQuality ?c1 \<notin> set [''good'', ''medium'', ''high'']"
    "normalizedQuality ?c2 \<in> set [''good'', ''medium'', ''high'']"
    "normalizedQuality ?u1 \<notin> set [''good'', ''medium'', ''high'']"
    "normalizedQuality ?u2 \<in> set [''good'', ''medium'', ''high'']"
    by (simp_all add: ex_normalizedQuality toLowerCase_bad toLowerCase_HIGH toLowerCase_High)
  note all1 = quality_normalized_or_rejected [of ?c1 ex_collab ex_world ex_test]
  note all2 = quality_normalized_or_rejected [of ?c2 ex_collab ex_world ex_test]
  note all3 = quality_normalized_or_rejected [of ?u1 ex_collab ex_world ex_test]
  note all4 = quality_normalized_or_rejected [of ?u2 ex_collab ex_world ex_test]
  have r1: "createWaterTest ex_collab ?c1 ex_world =
     (Response 400 (Message ''invalid quality''), ex_world)"
    by (rule all1 [THEN conjunct1, THEN mp])
      (intro conjI ex_requiredPresent ex_role nq(1))
  have s2: "waterTests (snd (createWaterTest ex_collab ?c2 ex_world)) =
       waterTests ex_world @ [createdRecord ex_collab ?c2] \<and>
     wt_quality (createdRecord ex_collab ?c2) = normalizedQuality ?c2"
    by (rule all2 [THEN conjunct2, THEN conjunct1, THEN mp])
      (intro conjI ex_requiredPresent ex_role nq(2) ex_create_resolves)
  have r2: "map wt_quality (waterTests (snd (createWaterTest ex_collab ?c2 ex_world))) =
     [''good'', ''high'']"
    by (simp add: s2 ts q0 ex_normalizedQuality toLowerCase_HIGH)
  have r3: "updateWaterTest ex_collab ?u1 ex_world =
     (Response 400 (Message ''invalid quality''), ex_world)"
    by (rule all3 [THEN conjunct2, THEN conjunct2, THEN conjunct1, THEN mp])
      (intro conjI ex_found ex_owner tq(1) nq(3))
  have s4: "map wt_quality (waterTests (snd (updateWaterTest ex_collab ?u2 ex_world))) =
        map (\<lambda>t. if wt_id t = params_id ?u2 then normalizedQuality ?u2 else wt_quality t)
          (waterTests ex_world)"
    by (rule all4 [THEN conjunct2, THEN conjunct2, THEN conjunct2, THEN conjunct1, THEN mp])
      (intro conjI ex_found ex_owner tq(2) nq(4) ex_update_resolves)
  have r4: "map wt_quality (waterTests (snd (updateWaterTest ex_collab ?u2 ex_world))) = [''high'']"
    by (simp add: s4 ts q0 i ex_normalizedQuality toLowerCase_High)
  let ?c3 = "ex_create (JNum 0) ex_asha"
  let ?b3 = "ex_patch\<lparr>notes := JStr ''edited'', quality := JBool False\<rparr>"
  let ?u3 = "ex_update ?b3 ex_asha"
  note all5 = quality_normalized_or_rejected [of ?c3 ex_collab ex_world ex_test]
  note all6 = quality_normalized_or_rejected [of ?u3 ex_collab ex_world ex_test]
  have f5: "\<not> truthy (quality (body ?c3))"
    by (simp add: ex_create_def)
  have f6: "\<not> truthy (quality (body ?u3))"
    by (simp add: ex_update_def)
  have b3: "body ?u3 = ?b3" and i3: "params_id ?u3 = ''t0''"
    by (simp_all add: ex_update_def)
  have r5: "createWaterTest ex_collab ?c3 ex_world =
     (Response 400 (Message
        ''waterbodyName, dateTime, location, photoUrl, notes, quality are required''), ex_world)"
    by (rule all5 [THEN conjunct2, THEN conjunct2, THEN conjunct2, THEN conjunct2,
          THEN conjunct1, THEN mp]) (rule f5)
  have s6: "updateWaterTest ex_collab ?u3 ex_world =
        (Response 200 (WaterTestId (params_id ?u3)),
         ex_world\<lparr>waterTests :=
             map (\<lambda>t. if wt_id t = params_id ?u3 then patchedRow (body ?u3) t else t)
               (waterTests ex_world)\<rparr>) \<and>
      map wt_quality (waterTests (snd (updateWaterTest ex_collab ?u3 ex_world))) =
        map wt_quality (waterTests ex_world)"
    by (rule all6 [THEN conjunct2, THEN conjunct2, THEN conjunct2, THEN conjunct2,
          THEN conjunct2, THEN conjunct1, THEN mp])
      (intro conjI ex_found ex_owner f6 ex_update_resolves)
  have d3: "updateData ?b3 = Inr (emptyData\<lparr>d_notes := Some (JStr ''edited'')\<rparr>)"
    by (simp add: updateData_cases emptyData_def ex_patch_def)
  have row3: "wt_notes (patchedRow ?b3 ex_test) = JStr ''edited''"
    by (simp add: patchedRow_def d3 applyData_def setColumn_def emptyData_def)
  have r6: "fst (updateWaterTest ex_collab ?u3 ex_world) = Response 200 (WaterTestId ''t0'')"
    by (simp add: s6 [THEN conjunct1] i3)
  have r7: "map wt_notes (waterTests (snd (updateWaterTest ex_collab ?u3 ex_world))) =
     [JStr ''edited'']"
    by (simp add: s6 [THEN conjunct1] b3 i3 ts q0 row3)
  have r8: "map wt_quality (waterTests (snd (updateWaterTest ex_collab ?u3 ex_world))) = [''good'']"
    by (simp only: s6 [THEN conjunct2] ts) (simp add: q0)
  from r1 r2 r3 r4 r5 r6 r7 r8 show ?thesis by (intro conjI)
qed

text \<open>
  A falsy quality is never answered \<open>invalid quality\<close>, though its normalized form is not one
  of the three. The owner updates with \<^verbatim>\<open>{ notes: "edited", quality: "" }\<close>: the answer is
  200 and the notes are changed. A create with \<^verbatim>\<open>quality: ""\<close> is answered 400 by the
  required-field test, with its message.
\<close>

theorem quality_normalized_or_rejected_counterexample:
  "toLowerCase (js_String (JStr [])) \<notin> set [''good'', ''medium'', ''high''] \<and>
   fst (updateWaterTest ex_collab
      (ex_update (ex_patch\<lparr>notes := JStr ''edited'', quality := JStr []\<rparr>) ex_asha) ex_world) =
     Response 200 (WaterTestId ''t0'') \<and>
   map wt_notes (waterTests ex_world) = [JStr ''clear''] \<and>
   map wt_notes (waterTests (snd (updateWaterTest ex_collab
      (ex_update (ex_patch\<lparr>notes := JStr ''edited'', quality := JStr []\<rparr>) ex_asha) ex_world))) =
     [JStr ''edited''] \<and>
   createWaterTest ex_collab (ex_create (JStr []) ex_asha) ex_world =
     (Response 400 (Message
        ''waterbodyName, dateTime, location, photoUrl, notes, quality are required''), ex_world)"
proof -
  let ?b = "ex_patch\<lparr>notes := JStr ''edited'', quality := JStr []\<rparr>"
  have b: "body (ex_update ?b ex_asha) = ?b" and i: "params_id (ex_update ?b ex_asha) = ''t0''"
    by (simp_all add: ex_update_def)
  have ts: "waterTests ex_world = [ex_test]" by (simp add: ex_world_def)
  have t0: "wt_id ex_test = ''t0''" by (simp add: ex_test_def)
  have d: "updateData ?b = Inr (emptyData\<lparr>d_notes := Some (JStr ''edited'')\<rparr>)"
    by (simp add: updateData_cases emptyData_def ex_patch_def)
  have row: "wt_notes (patchedRow ?b ex_test) = JStr ''edited''"
    by (simp add: patchedRow_def d applyData_def setColumn_def emptyData_def)
  note run = updateWaterTest_applies [OF ex_found ex_owner _ ex_update_resolves, of ?b]
  have c1: "toLowerCase (js_String (JStr [])) \<notin> set [''good'', ''medium'', ''high'']"
    by (simp add: toLowerCase_def)
  have c2: "fst (updateWaterTest ex_collab (ex_update ?b ex_asha) ex_world) =
     Response 200 (WaterTestId ''t0'')"
    using run by (simp add: b d i)
  have c3: "map wt_notes (waterTests ex_world) = [JStr ''clear'']"
    by (simp add: ts) (simp add: ex_test_def)
  have c4: "map wt_notes (waterTests (snd (updateWaterTest ex_collab
      (ex_update ?b ex_asha) ex_world))) = [JStr ''edited'']"
    using run by (simp add: b d i ts t0 row)
  have c5: "createWaterTest ex_collab (ex_create (JStr []) ex_asha) ex_world =
     (Response 400 (Message
        ''waterbodyName, dateTime, location, photoUrl, notes, quality are required''), ex_world)"
    by (simp add: createWaterTest_def handler_def createWaterTest_try_def Let_def ret_def
        ex_create_def ex_body_def)
  from c1 c2 c3 c4 c5 show ?thesis by (intro conjI)
qed

subsection \<open>updateWaterTest: what a patch changes\<close>

text \<open>
  C5, as amended. Let the lookup find the record, the caller be admin or owner, the quality
  of the body be falsy or normalize to one of good, medium, high, and the store accept
  the update. Then the answer is 200 and every row with the id of the request becomes its
  patched row, in which:
  waterbodyName, dateTime, location, photoUrl, notes and quality keep the stored value
  when the field is omitted or falsy, and take the supplied one (quality normalized)
  otherwise; latitude and longitude take the supplied value exactly when it is of type
  number, zero included, and keep the stored value otherwise; waterbodyId keeps the stored
  value when omitted, is null when present but falsy, and is the supplied value otherwise;
  id, ashaId and createdAt are kept.
\<close>

theorem updateWaterTest_patch_semantics:
  assumes "found c req w existing"
    and "adminOrOwner req existing"
    and "\<not> dbRejects c WaterTestUpdate"
    and "\<not> truthy (quality (body req)) \<or>
         normalizedQuality req \<in> set [''good'', ''medium'', ''high'']"
  shows "updateWaterTest c req w =
           (Response 200 (WaterTestId (params_id req)),
            w\<lparr>waterTests :=
                map (\<lambda>t. if wt_id t = params_id req then patchedRow (body req) t else t)
                  (waterTests w)\<rparr>) \<and>
         wt_waterbodyName (patchedRow (body req) t) =
           (if truthy (waterbodyName (body req)) then waterbodyName (body req)
            else wt_waterbodyName t) \<and>
         wt_dateTime (patchedRow (body req) t) =
           (if truthy (dateTime (body req)) then dateTime (body req) else wt_dateTime t) \<and>
         wt_location (patchedRow (body req) t) =
           (if truthy (location (body req)) then location (body req) else wt_location t) \<and>
         wt_photoUrl (patchedRow (body req) t) =
           (if truthy (photoUrl (body req)) then photoUrl (body req) else wt_photoUrl t) \<and>
         wt_notes (patchedRow (body req) t) =
           (if truthy (notes (body req)) then notes (body req) else wt_notes t) \<and>
         wt_quality (patchedRow (body req) t) =
           (if truthy (quality (body req)) then normalizedQuality req else wt_quality t) \<and>
         wt_latitude (patchedRow (body req) t) =
           (if typeof (latitude (body req)) = ''number'' then latitude (body req)
            else wt_latitude t) \<and>
         wt_longitude (patchedRow (body req) t) =
           (if typeof (longitude (body req)) = ''number'' then longitude (body req)
            else wt_longitude t) \<and>
         wt_waterbodyId (patchedRow (body req) t) =
           (if typeof (waterbodyId (body req)) = ''undefined'' then wt_waterbodyId t
            else if truthy (waterbodyId (body req)) then waterbodyId (body req) else JNull) \<and>
         wt_id (patchedRow (body req) t) = wt_id t \<and>
         wt_ashaId (patchedRow (body req) t) = wt_ashaId t \<and>
         wt_createdAt (patchedRow (body req) t) = wt_createdAt t"
proof -
  let ?b = "body req"
  let ?d = "\<lparr>d_waterbodyName = (if truthy (waterbodyName ?b) then Some (waterbodyName ?b) else None),
         d_waterbodyId =
           (if typeof (waterbodyId ?b) \<noteq> ''undefined''
            then Some (if truthy (waterbodyId ?b) then waterbodyId ?b else JNull) else None),
         d_dateTime = (if truthy (dateTime ?b) then Some (dateTime ?b) else None),
         d_location = (if truthy (location ?b) then Some (location ?b) else None),
         d_latitude = (if typeof (latitude ?b) = ''number'' then Some (latitude ?b) else None),
         d_longitude = (if typeof (longitude ?b) = ''number'' then Some (longitude ?b) else None),
         d_photoUrl = (if truthy (photoUrl ?b) then Some (photoUrl ?b) else None),
         d_notes = (if truthy (notes ?b) then Some (notes ?b) else None),
         d_quality =
           (if truthy (quality ?b) then Some (toLowerCase (js_String (quality ?b))) else None)\<rparr>"
  have ok: "\<not> (truthy (quality ?b) \<and>
         toLowerCase (js_String (quality ?b)) \<notin> set [''good'', ''medium'', ''high''])"
    using assms(4) unfolding normalizedQuality_def by blast
  have d: "updateData ?b = Inr ?d"
    by (simp only: updateData_cases ok if_False)
  have run: "updateWaterTest c req w =
           (Response 200 (WaterTestId (params_id req)),
            w\<lparr>waterTests :=
                map (\<lambda>t. if wt_id t = params_id req then patchedRow ?b t else t)
                  (waterTests w)\<rparr>)"
    by (rule updateWaterTest_applies [OF assms(1,2) d assms(3)])
  have row: "patchedRow ?b t = applyData ?d t"
    by (simp only: patchedRow_def d sum.case)
  have f1: "wt_waterbodyName (applyData ?d t) =
      (if truthy (waterbodyName ?b) then waterbodyName ?b else wt_waterbodyName t)"
    by (simp add: applyData_def setColumn_def)
  have f2: "wt_dateTime (applyData ?d t) =
      (if truthy (dateTime ?b) then dateTime ?b else wt_dateTime t)"
    by (simp add: applyData_def setColumn_def)
  have f3: "wt_location (applyData ?d t) =
      (if truthy (location ?b) then location ?b else wt_location t)"
    by (simp add: applyData_def setColumn_def)
  have f4: "wt_photoUrl (applyData ?d t) =
      (if truthy (photoUrl ?b) then photoUrl ?b else wt_photoUrl t)"
    by (simp add: applyData_def setColumn_def)
  have f5: "wt_notes (applyData ?d t) = (if truthy (notes ?b) then notes ?b else wt_notes t)"
    by (simp add: applyData_def setColumn_def)
  have f6: "wt_quality (applyData ?d t) =
      (if truthy (quality ?b) then normalizedQuality req else wt_quality t)"
    by (simp add: applyData_def setColumn_def normalizedQuality_def)
  have f7: "wt_latitude (applyData ?d t) =
      (if typeof (latitude ?b) = ''number'' then latitude ?b else wt_latitude t)"
    by (simp add: applyData_def setColumn_def)
  have f8: "wt_longitude (applyData ?d t) =
      (if typeof (longitude ?b) = ''number'' then longitude ?b else wt_longitude t)"
    by (simp add: applyData_def setColumn_def)
  have f9: "wt_waterbodyId (applyData ?d t) =
      (if typeof (waterbodyId ?b) = ''undefined'' then wt_waterbodyId t
       else if truthy (waterbodyId ?b) then waterbodyId ?b else JNull)"
    by (simp add: applyData_def setColumn_def)
  note keys = applyData_keys [of ?d t]
  show ?thesis
    unfolding row
    by (intro conjI run f1 f2 f3 f4 f5 f6 f7 f8 f9 keys [THEN conjunct1]
        keys [THEN conjunct2, THEN conjunct1] keys [THEN conjunct2, THEN conjunct2])
qed

theorem updateWaterTest_patch_semantics_witness:
  "found ex_collab
     (ex_update (ex_patch\<lparr>waterbodyId := JNull, latitude := JNum 0, notes := JStr ''edited''\<rparr>) ex_asha)
     ex_world ex_test \<and>
   adminOrOwner
     (ex_update (ex_patch\<lparr>waterbodyId := JNull, latitude := JNum 0, notes := JStr ''edited''\<rparr>) ex_asha)
     ex_test \<and>
   \<not> truthy (quality (body
     (ex_update (ex_patch\<lparr>waterbodyId := JNull, latitude := JNum 0, notes := JStr ''edited''\<rparr>) ex_asha))) \<and>
   updateWaterTest ex_collab
     (ex_update (ex_patch\<lparr>waterbodyId := JNull, latitude := JNum 0, notes := JStr ''edited''\<rparr>) ex_asha)
     ex_world =
     (Response 200 (WaterTestId ''t0''),
      ex_world\<lparr>waterTests :=
        [ex_test\<lparr>wt_waterbodyId := JNull, wt_latitude := JNum 0, wt_notes := JStr ''edited''\<rparr>]\<rparr>)"
proof -
  let ?b = "ex_patch\<lparr>waterbodyId := JNull, latitude := JNum 0, notes := JStr ''edited''\<rparr>"
  let ?r = "ex_update ?b ex_asha"
  have b: "body ?r = ?b" and i: "params_id ?r = ''t0''"
    by (simp_all add: ex_update_def)
  have q: "\<not> truthy (quality (body ?r))"
    by (simp add: ex_update_def ex_patch_def)
  have q': "\<not> truthy (quality (body ?r)) \<or>
         normalizedQuality ?r \<in> set [''good'', ''medium'', ''high'']"
    using q by (rule disjI1)
  have row: "patchedRow ?b ex_test =
      ex_test\<lparr>wt_waterbodyId := JNull, wt_latitude := JNum 0, wt_notes := JStr ''edited''\<rparr>"
    by (simp add: patchedRow_def updateData_cases applyData_def setColumn_def ex_patch_def
        ex_test_def)
  have ts: "waterTests ex_world = [ex_test]" by (simp add: ex_world_def)
  have t0: "wt_id ex_test = ''t0''" by (simp add: ex_test_def)
  have "updateWaterTest ex_collab ?r ex_world =
     (Response 200 (WaterTestId ''t0''),
      ex_world\<lparr>waterTests :=
        [ex_test\<lparr>wt_waterbodyId := JNull, wt_latitude := JNum 0, wt_notes := JStr ''edited''\<rparr>]\<rparr>)"
    using updateWaterTest_patch_semantics
      [OF ex_found ex_owner ex_update_resolves q', THEN conjunct1]
    by (simp add: b i ts t0 row)
  with ex_found ex_owner q show ?thesis by (intro conjI)
qed

text \<open>
  Two inputs on which the property fails without the amendments. The owner updates with
  \<^verbatim>\<open>{ latitude: 0 }\<close>: the field is falsy and the stored latitude changes from 20 to 0.
  The owner updates with \<^verbatim>\<open>{ waterbodyId: null, quality: "bad" }\<close>: the answer is 400
  and the stored waterbodyId is not set to null.
\<close>

theorem updateWaterTest_patch_semantics_counterexample:
  "\<not> truthy (latitude (body (ex_update (ex_patch\<lparr>latitude := JNum 0\<rparr>) ex_asha))) \<and>
   map wt_latitude (waterTests ex_world) = [JNum 20] \<and>
   map wt_latitude (waterTests (snd (updateWaterTest ex_collab
      (ex_update (ex_patch\<lparr>latitude := JNum 0\<rparr>) ex_asha) ex_world))) = [JNum 0] \<and>
   typeof (waterbodyId (body
      (ex_update (ex_patch\<lparr>waterbodyId := JNull, quality := JStr ''bad''\<rparr>) ex_asha))) \<noteq> ''undefined'' \<and>
   \<not> truthy (waterbodyId (body
      (ex_update (ex_patch\<lparr>waterbodyId := JNull, quality := JStr ''bad''\<rparr>) ex_asha))) \<and>
   updateWaterTest ex_collab
      (ex_update (ex_patch\<lparr>waterbodyId := JNull, quality := JStr ''bad''\<rparr>) ex_asha) ex_world =
     (Response 400 (Message ''invalid quality''), ex_world) \<and>
   map wt_waterbodyId (waterTests ex_world) = [JStr ''wb7'']"
proof -
  let ?b1 = "ex_patch\<lparr>latitude := JNum 0\<rparr>"
  let ?b2 = "ex_patch\<lparr>waterbodyId := JNull, quality := JStr ''bad''\<rparr>"
  have b1: "body (ex_update ?b1 ex_asha) = ?b1" and b2: "body (ex_update ?b2 ex_asha) = ?b2"
    and i: "\<And>b. params_id (ex_update b ex_asha) = ''t0''"
    by (simp_all add: ex_update_def)
  have ts: "waterTests ex_world = [ex_test]" by (simp add: ex_world_def)
  have t0: "wt_id ex_test = ''t0''" by (simp add: ex_test_def)
  have d1: "updateData ?b1 = Inr (emptyData\<lparr>d_latitude := Some (JNum 0)\<rparr>)"
    by (simp add: updateData_cases emptyData_def ex_patch_def)
  have row: "wt_latitude (patchedRow ?b1 ex_test) = JNum 0"
    by (simp add: patchedRow_def d1 applyData_def setColumn_def emptyData_def)
  have c1: "\<not> truthy (latitude (body (ex_update ?b1 ex_asha)))"
    by (simp add: b1)
  have c2: "map wt_latitude (waterTests ex_world) = [JNum 20]"
    by (simp add: ts) (simp add: ex_test_def)
  have c3: "map wt_latitude (waterTests (snd (updateWaterTest ex_collab
      (ex_update ?b1 ex_asha) ex_world))) = [JNum 0]"
    using updateWaterTest_applies [OF ex_found ex_owner _ ex_update_resolves, of ?b1]
    by (simp add: b1 d1 i ts t0 row)
  have d2: "updateData ?b2 = Inl (Response 400 (Message ''invalid quality''))"
    by (simp add: updateData_cases ex_patch_def toLowerCase_bad)
  have c4: "typeof (waterbodyId (body (ex_update ?b2 ex_asha))) \<noteq> ''undefined''"
    by (simp add: b2)
  have c5: "\<not> truthy (waterbodyId (body (ex_update ?b2 ex_asha)))"
    by (simp add: b2)
  have c6: "updateWaterTest ex_collab (ex_update ?b2 ex_asha) ex_world =
     (Response 400 (Message ''invalid quality''), ex_world)"
    using updateWaterTest_rejects [OF ex_found ex_owner, of ?b2] by (simp add: b2 d2)
  have c7: "map wt_waterbodyId (waterTests ex_world) = [JStr ''wb7'']"
    by (simp add: ts) (simp add: ex_test_def)
  from c1 c2 c3 c4 c5 c6 c7 show ?thesis by (intro conjI)
qed

subsection \<open>updateWaterTest and deleteWaterTest: the caller is neither admin nor owner\<close>

text \<open>
  C6. An update or delete request for a record that the lookup finds, from a caller who is
  not an admin and whose id is not the stored ashaId, is answered 403 and leaves the world
  as it was: no field is changed and the record is not deleted.
\<close>

theorem update_delete_forbidden_unchanged:
  assumes "found c req w existing"
    and "\<not> adminOrOwner req existing"
  shows "updateWaterTest c req w = (Response 403 (Message ''forbidden''), w) \<and>
         deleteWaterTest c req w = (Response 403 (Message ''forbidden''), w)"
  using assms
  by (simp add: found_def adminOrOwner_def updateWaterTest_def deleteWaterTest_def handler_def
      updateWaterTest_try_def deleteWaterTest_try_def andThen_def ret_def
      waterTest_findUnique_def)

theorem update_delete_forbidden_unchanged_witness:
  "found ex_collab (ex_update (ex_patch\<lparr>notes := JStr ''edited''\<rparr>) ex_guest) ex_world ex_test \<and>
   \<not> adminOrOwner (ex_update (ex_patch\<lparr>notes := JStr ''edited''\<rparr>) ex_guest) ex_test \<and>
   updateWaterTest ex_collab (ex_update (ex_patch\<lparr>notes := JStr ''edited''\<rparr>) ex_guest) ex_world =
     (Response 403 (Message ''forbidden''), ex_world) \<and>
   deleteWaterTest ex_collab (ex_update (ex_patch\<lparr>notes := JStr ''edited''\<rparr>) ex_guest) ex_world =
     (Response 403 (Message ''forbidden''), ex_world)"
proof -
  have f: "found ex_collab (ex_update (ex_patch\<lparr>notes := JStr ''edited''\<rparr>) ex_guest) ex_world ex_test"
    by (rule ex_found)
  have n: "\<not> adminOrOwner (ex_update (ex_patch\<lparr>notes := JStr ''edited''\<rparr>) ex_guest) ex_test"
    by (simp add: adminOrOwner_def ex_update_def ex_guest_def ex_test_def)
  from update_delete_forbidden_unchanged [OF f n] f n show ?thesis
    by (intro conjI) simp_all
qed

subsection \<open>createWaterTest: a failing health-card upsert\<close>

text \<open>
  C7. A create request reaches the health-card stage when it passes the three checks, the
  store accepts the new row and the alert handling returns. If the health-card upsert then
  throws, the exception is caught and logged there: the handler answers 201 with the id of
  the new record and nothing else, and the new WaterTest row stays in the table.
\<close>

theorem createWaterTest_healthCard_failure_recovered:
  assumes "requiredPresent (body req)"
    and "user_role (user req) \<in> set [''asha'', ''admin'', ''leader'']"
    and "normalizedQuality req \<in> set [''good'', ''medium'', ''high'']"
    and "\<not> dbRejects c WaterTestCreate"
    and "alertHandling c (normalizedQuality req) (createdRecord c req) (location (body req))
           (toLocaleString c (dateTime (body req)))
           (w\<lparr>waterTests := waterTests w @ [createdRecord c req]\<rparr>) = (Inr (), w2)"
    and "healthCardThrows c (healthCardReqOf (createdRecord c req) (user req))"
  shows "createWaterTest c req w =
           (Response 201 (WaterTestId (wt_id (createdRecord c req))),
            w2\<lparr>healthCardCalls :=
                  healthCardCalls w2 @ [healthCardReqOf (createdRecord c req) (user req)],
                console :=
                  console w2 @ [ConsoleError ''Error updating health card:'' HealthCardError]\<rparr>) \<and>
         waterTests (snd (createWaterTest c req w)) = waterTests w @ [createdRecord c req]"
proof -
  let ?w1 = "w\<lparr>waterTests := waterTests w @ [createdRecord c req]\<rparr>"
  have wt: "waterTests w2 = waterTests ?w1"
    using alertHandling_waterTests
      [of c "normalizedQuality req" "createdRecord c req" "location (body req)"
          "toLocaleString c (dateTime (body req))" ?w1]
    by (simp add: assms(5))
  have run: "createWaterTest c req w =
           (Response 201 (WaterTestId (wt_id (createdRecord c req))),
            w2\<lparr>healthCardCalls :=
                  healthCardCalls w2 @ [healthCardReqOf (createdRecord c req) (user req)],
                console :=
                  console w2 @ [ConsoleError ''Error updating health card:'' HealthCardError]\<rparr>)"
    using assms(6)
    by (simp add: createWaterTest_def handler_def createWaterTest_try_valid [OF assms(1-4)]
        andThen_def assms(5) healthCardUpdate_apply ret_def createdRecord_id)
  show ?thesis using run wt by simp
qed

theorem createWaterTest_healthCard_failure_recovered_witness:
  "requiredPresent (body (ex_create (JStr ''Good'') ex_asha)) \<and>
   user_role (user (ex_create (JStr ''Good'') ex_asha)) \<in> set [''asha'', ''admin'', ''leader''] \<and>
   normalizedQuality (ex_create (JStr ''Good'') ex_asha) \<in> set [''good'', ''medium'', ''high''] \<and>
   healthCardThrows (ex_collab\<lparr>healthCardThrows := \<lambda>r. True\<rparr>)
     (healthCardReqOf (createdRecord (ex_collab\<lparr>healthCardThrows := \<lambda>r. True\<rparr>)
        (ex_create (JStr ''Good'') ex_asha)) ex_asha) \<and>
   fst (createWaterTest (ex_collab\<lparr>healthCardThrows := \<lambda>r. True\<rparr>)
          (ex_create (JStr ''Good'') ex_asha) ex_world) = Response 201 (WaterTestId ''t1'') \<and>
   map wt_id (waterTests (snd (createWaterTest (ex_collab\<lparr>healthCardThrows := \<lambda>r. True\<rparr>)
          (ex_create (JStr ''Good'') ex_asha) ex_world))) = [''t0'', ''t1''] \<and>
   console (snd (createWaterTest (ex_collab\<lparr>healthCardThrows := \<lambda>r. True\<rparr>)
          (ex_create (JStr ''Good'') ex_asha) ex_world)) =
     [ConsoleError ''Error updating health card:'' HealthCardError]"
proof -
  let ?c = "ex_collab\<lparr>healthCardThrows := \<lambda>r. True\<rparr>"
  let ?r = "ex_create (JStr ''Good'') ex_asha"
  have h1: "requiredPresent (body ?r)" by (rule ex_requiredPresent)
  have h2: "user_role (user ?r) \<in> set [''asha'', ''admin'', ''leader'']"
    by (simp add: ex_create_def ex_asha_def)
  have nq: "normalizedQuality ?r = ''good''"
    by (simp add: normalizedQuality_def ex_create_def toLowerCase_Good)
  have h3: "normalizedQuality ?r \<in> set [''good'', ''medium'', ''high'']"
    by (simp add: nq)
  have h4: "\<not> dbRejects ?c WaterTestCreate" by (simp add: ex_collab_def)
  have h5: "alertHandling ?c (normalizedQuality ?r) (createdRecord ?c ?r) (location (body ?r))
           (toLocaleString ?c (dateTime (body ?r)))
           (ex_world\<lparr>waterTests := waterTests ex_world @ [createdRecord ?c ?r]\<rparr>) =
           (Inr (), ex_world\<lparr>waterTests := waterTests ex_world @ [createdRecord ?c ?r]\<rparr>)"
    by (simp add: nq alertHandling_good ret_def)
  have h6: "healthCardThrows ?c (healthCardReqOf (createdRecord ?c ?r) (user ?r))" by simp
  have u: "user ?r = ex_asha" by (simp add: ex_create_def)
  show ?thesis
    using createWaterTest_healthCard_failure_recovered [OF h1 h2 h3 h4 h5 h6] h1 h2 h3
    by (simp add: u createdRecord_id ex_world_def ex_test_def ex_collab_def)
qed

subsection \<open>The two listings of the caller's own records\<close>

lemma orderByCreatedAtDesc_sorted:
  "sorted_wrt (\<lambda>a b. wt_createdAt b \<le> wt_createdAt a) (orderByCreatedAtDesc ts)"
proof -
  have "sorted (map wt_createdAt (sort_key wt_createdAt ts))"
    by (rule sorted_sort_key)
  then have "sorted_wrt (\<lambda>a b. wt_createdAt a \<le> wt_createdAt b) (sort_key wt_createdAt ts)"
    by (simp add: sorted_map)
  then show ?thesis
    by (simp add: orderByCreatedAtDesc_def sorted_wrt_rev)
qed

lemma orderByCreatedAtDesc_mset: "mset (orderByCreatedAtDesc ts) = mset ts"
  by (simp add: orderByCreatedAtDesc_def)

text \<open>
  C8. \<^verbatim>\<open>getUserWaterTests\<close> and \<^verbatim>\<open>getWaterTestsByUser\<close> give the same response for
  every caller and every state of the store. When the query resolves, that response is 200
  with exactly the records whose ashaId is the caller's id, by falling creation time, and
  the world is unchanged; when it rejects, both answer the same 500.
\<close>

theorem getUserWaterTests_getWaterTestsByUser_same_response:
  "fst (getUserWaterTests c req w) = fst (getWaterTestsByUser c req w) \<and>
   (\<not> dbRejects c WaterTestFindMany \<longrightarrow>
      (\<exists>items.
         getUserWaterTests c req w = (Response 200 (Items items), w) \<and>
         getWaterTestsByUser c req w = (Response 200 (Items items), w) \<and>
         mset items = mset (filter (\<lambda>t. wt_ashaId t = user_id (user req)) (waterTests w)) \<and>
         sorted_wrt (\<lambda>a b. wt_createdAt b \<le> wt_createdAt a) items))"
proof -
  have same: "fst (getUserWaterTests c req w) = fst (getWaterTestsByUser c req w)"
    by (simp add: getUserWaterTests_def getWaterTestsByUser_def handler_def
        getUserWaterTests_try_def getWaterTestsByUser_try_def andThen_def ret_def
        waterTest_findMany_def)
  have ok: "\<not> dbRejects c WaterTestFindMany \<Longrightarrow>
      getUserWaterTests c req w =
        (Response 200 (Items (orderByCreatedAtDesc
           (filter (\<lambda>t. wt_ashaId t = user_id (user req)) (waterTests w)))), w) \<and>
      getWaterTestsByUser c req w =
        (Response 200 (Items (orderByCreatedAtDesc
           (filter (\<lambda>t. wt_ashaId t = user_id (user req)) (waterTests w)))), w)"
    by (simp add: getUserWaterTests_def getWaterTestsByUser_def handler_def
        getUserWaterTests_try_def getWaterTestsByUser_try_def andThen_def ret_def
        waterTest_findMany_def)
  show ?thesis
    using same ok orderByCreatedAtDesc_sorted orderByCreatedAtDesc_mset by blast
qed

theorem getUserWaterTests_getWaterTestsByUser_same_response_witness:
  "\<not> dbRejects ex_collab WaterTestFindMany \<and>
   getUserWaterTests ex_collab (ex_update ex_patch ex_asha) (ex_world\<lparr>waterTests := ex_tests\<rparr>) =
     (Response 200 (Items [ex_tests ! 2, ex_tests ! 0]), ex_world\<lparr>waterTests := ex_tests\<rparr>) \<and>
   getWaterTestsByUser ex_collab (ex_update ex_patch ex_asha) (ex_world\<lparr>waterTests := ex_tests\<rparr>) =
     (Response 200 (Items [ex_tests ! 2, ex_tests ! 0]), ex_world\<lparr>waterTests := ex_tests\<rparr>) \<and>
   fst (getUserWaterTests (ex_collab\<lparr>dbRejects := \<lambda>call. True\<rparr>) (ex_update ex_patch ex_asha) ex_world) =
     Response 500 (Message ''Internal Server Error'') \<and>
   fst (getWaterTestsByUser (ex_collab\<lparr>dbRejects := \<lambda>call. True\<rparr>) (ex_update ex_patch ex_asha) ex_world) =
     Response 500 (Message ''Internal Server Error'')"
proof -
  have a: "getUserWaterTests ex_collab (ex_update ex_patch ex_asha) (ex_world\<lparr>waterTests := ex_tests\<rparr>) =
     (Response 200 (Items [ex_tests ! 2, ex_tests ! 0]), ex_world\<lparr>waterTests := ex_tests\<rparr>)"
    by (simp add: getUserWaterTests_def handler_def getUserWaterTests_try_def andThen_def ret_def
        waterTest_findMany_def orderByCreatedAtDesc_def ex_collab_def ex_update_def ex_asha_def
        ex_world_def ex_tests_def ex_test_def)
  have b: "fst (getUserWaterTests (ex_collab\<lparr>dbRejects := \<lambda>call. True\<rparr>) (ex_update ex_patch ex_asha) ex_world) =
     Response 500 (Message ''Internal Server Error'')"
    by (simp add: getUserWaterTests_def handler_def getUserWaterTests_try_def andThen_def
        waterTest_findMany_def)
  have c: "\<not> dbRejects ex_collab WaterTestFindMany" by (simp add: ex_collab_def)
  let ?W = "ex_world\<lparr>waterTests := ex_tests\<rparr>"
  let ?r = "ex_update ex_patch ex_asha"
  from getUserWaterTests_getWaterTestsByUser_same_response [of ex_collab ?r ?W] c
  obtain items where i: "getUserWaterTests ex_collab ?r ?W = (Response 200 (Items items), ?W)"
    "getWaterTestsByUser ex_collab ?r ?W = (Response 200 (Items items), ?W)"
    by blast
  from i(1) a have "items = [ex_tests ! 2, ex_tests ! 0]"
    by (simp only: prod.inject response.inject resBody.inject)
  with i(2) have a': "getWaterTestsByUser ex_collab ?r ?W =
     (Response 200 (Items [ex_tests ! 2, ex_tests ! 0]), ?W)"
    by (simp only:)
  from getUserWaterTests_getWaterTestsByUser_same_response
     [of "ex_collab\<lparr>dbRejects := \<lambda>call. True\<rparr>" ?r ex_world]
  have "fst (getUserWaterTests (ex_collab\<lparr>dbRejects := \<lambda>call. True\<rparr>) ?r ex_world) =
        fst (getWaterTestsByUser (ex_collab\<lparr>dbRejects := \<lambda>call. True\<rparr>) ?r ex_world)"
    by (rule conjunct1)
  with b have b': "fst (getWaterTestsByUser (ex_collab\<lparr>dbRejects := \<lambda>call. True\<rparr>) ?r ex_world) =
     Response 500 (Message ''Internal Server Error'')"
    by (simp only:)
  from c a a' b b' show ?thesis by (intro conjI)
qed

subsection \<open>createWaterTest: the order of the checks\<close>

text \<open>
  C9. In \<^verbatim>\<open>createWaterTest\<close> the required-field test runs before the role test: a
  request in which one of waterbodyName, dateTime, location, photoUrl, notes, quality is
  missing (or falsy in any other way) is answered 400 with the message that names the
  required fields, whatever the role of the caller, so never 403; nothing is written.
\<close>

theorem createWaterTest_required_before_role:
  assumes "\<not> truthy (waterbodyName (body req)) \<or> \<not> truthy (dateTime (body req)) \<or>
           \<not> truthy (location (body req)) \<or> \<not> truthy (photoUrl (body req)) \<or>
           \<not> truthy (notes (body req)) \<or> \<not> truthy (quality (body req))"
  shows "createWaterTest c req w =
           (Response 400 (Message
              ''waterbodyName, dateTime, location, photoUrl, notes, quality are required''), w)"
proof -
  have "createWaterTest_try c req w =
          (Inr (Response 400 (Message
              ''waterbodyName, dateTime, location, photoUrl, notes, quality are required'')), w)"
    using assms unfolding createWaterTest_try_def Let_def by (simp add: ret_apply)
  then show ?thesis
    unfolding createWaterTest_def by (rule handler_Inr)
qed

theorem createWaterTest_required_before_role_witness:
  "\<not> truthy (notes (body \<lparr>body = ex_body\<lparr>notes := JUndefined\<rparr>, user = ex_guest, params_id = []\<rparr>)) \<and>
   user_role (user \<lparr>body = ex_body\<lparr>notes := JUndefined\<rparr>, user = ex_guest, params_id = []\<rparr>)
     \<notin> set [''asha'', ''admin'', ''leader''] \<and>
   createWaterTest ex_collab \<lparr>body = ex_body\<lparr>notes := JUndefined\<rparr>, user = ex_guest, params_id = []\<rparr>
       ex_world =
     (Response 400 (Message
        ''waterbodyName, dateTime, location, photoUrl, notes, quality are required''), ex_world)"
  using createWaterTest_required_before_role
    [of "\<lparr>body = ex_body\<lparr>notes := JUndefined\<rparr>, user = ex_guest, params_id = []\<rparr>"
        ex_collab ex_world]
  by (simp add: ex_body_def ex_guest_def)

subsection \<open>createWaterTest: a send that rejects\<close>

text \<open>
  C10. Let a create request pass the checks with quality \<open>medium\<close> or \<open>high\<close>, the store
  accept the new row and the alert rows, and let \<open>n\<close> be the first recipient with a valid
  number for whom the SMS or the WhatsApp send rejects. Then the handler answers 500; the
  recipients after \<open>n\<close> are not sent anything (the sends are those to the valid numbers
  before \<open>n\<close> and the ones to \<open>n\<close> up to the rejection); the WaterTest row and the
  LeaderAlert or GlobalAlert rows are in the tables all the same; and the health-card
  upsert is not called.
\<close>

theorem createWaterTest_send_rejects:
  assumes "requiredPresent (body req)"
    and "user_role (user req) \<in> set [''asha'', ''admin'', ''leader'']"
    and "\<not> dbRejects c WaterTestCreate"
    and "\<not> dbRejects c UserFindMany"
    and "normalizedQuality req = ''medium'' \<and> \<not> dbRejects c LeaderAlertCreateMany \<or>
         normalizedQuality req = ''high'' \<and> \<not> dbRejects c GlobalAlertCreate"
    and "map u_number (recipients (normalizedQuality req) w) = pre @ n # post"
    and "list_all (\<lambda>m. \<not> (isValidPhoneNumber m \<and> sendRejects c (alertMessage c req) m)) pre"
    and "isValidPhoneNumber n"
    and "sendRejects c (alertMessage c req) n"
  shows "fst (createWaterTest c req w) = Response 500 (Message ''Internal Server Error'') \<and>
         waterTests (snd (createWaterTest c req w)) = waterTests w @ [createdRecord c req] \<and>
         leaderAlerts (snd (createWaterTest c req w)) =
           leaderAlerts w @
           (if normalizedQuality req = ''medium''
            then map (leaderAlertFor (createdRecord c req)) (recipients ''medium'' w) else []) \<and>
         globalAlerts (snd (createWaterTest c req w)) =
           globalAlerts w @
           (if normalizedQuality req = ''high'' then [globalAlertFor (createdRecord c req)] else []) \<and>
         outbox (snd (createWaterTest c req w)) =
           outbox w @ concat (map (sendsTo (alertMessage c req)) (filter isValidPhoneNumber pre)) @
           sendsUntilReject c (alertMessage c req) n \<and>
         healthCardCalls (snd (createWaterTest c req w)) = healthCardCalls w"
proof -
  let ?nq = "normalizedQuality req"
  let ?rec = "createdRecord c req"
  let ?w1 = "w\<lparr>waterTests := waterTests w @ [?rec]\<rparr>"
  let ?w1' = "?w1\<lparr>leaderAlerts := leaderAlerts ?w1 @
                  (if ?nq = ''medium'' then map (leaderAlertFor ?rec) (recipients ?nq ?w1) else []),
                globalAlerts := globalAlerts ?w1 @
                  (if ?nq = ''high'' then [globalAlertFor ?rec] else [])\<rparr>"
  let ?who = "if ?nq = ''medium'' then ''leader'' else ''user''"
  let ?loop = "notifyEach c ?who (alertMessage c req) (pre @ n # post) ?w1'"
  have q: "?nq \<in> set [''good'', ''medium'', ''high'']"
    using assms(5) by auto
  have rcp: "\<And>q. recipients q ?w1 = recipients q w"
    by (simp add: recipients_def)
  have ah: "alertHandling c ?nq ?rec (location (body req))
              (toLocaleString c (dateTime (body req))) ?w1 = ?loop"
    using alertHandling_notify [OF assms(5) assms(4), of ?rec "location (body req)"
        "toLocaleString c (dateTime (body req))" ?w1]
    by (simp add: rcp assms(6) alertMessage_def)
  have stop: "fst ?loop = Inl (if smsRejects c n (alertMessage c req) then SmsError else WhatsAppError)"
    and box: "outbox (snd ?loop) =
           outbox ?w1' @ concat (map (sendsTo (alertMessage c req)) (filter isValidPhoneNumber pre)) @
           sendsUntilReject c (alertMessage c req) n"
    using notifyEach_stops [OF assms(7-9), of ?who post ?w1'] by simp_all
  obtain e w3 where loop: "?loop = (Inl e, w3)"
    using stop by (cases ?loop) auto
  have frame: "waterTests w3 = waterTests ?w1' \<and> leaderAlerts w3 = leaderAlerts ?w1' \<and>
      globalAlerts w3 = globalAlerts ?w1' \<and> healthCardCalls w3 = healthCardCalls ?w1'"
    using notifyEach_frame [of c ?who "alertMessage c req" "pre @ n # post" ?w1'] loop by simp
  have run: "createWaterTest c req w =
           (Response 500 (Message ''Internal Server Error''),
            w3\<lparr>console := console w3 @ [ConsoleError ''createWaterTest error'' e]\<rparr>)"
    using createWaterTest_alert_exception [OF assms(1,2) q assms(3), of w e w3] ah loop by simp
  show ?thesis
    using run frame box loop by (simp add: rcp)
qed

theorem createWaterTest_send_rejects_witness:
  "map u_number (recipients (normalizedQuality (ex_create (JStr ''Medium'') ex_asha))
      (ex_world\<lparr>users := ex_users_many\<rparr>)) =
     [JStr ''+911234567890''] @ JStr ''+919876543210'' # [JStr ''invalid'', JStr ''+14155550100''] \<and>
   isValidPhoneNumber (JStr ''+919876543210'') \<and>
   sendRejects (ex_collab\<lparr>whatsAppRejects := \<lambda>n text. n = JStr ''+919876543210''\<rparr>)
     (alertMessage (ex_collab\<lparr>whatsAppRejects := \<lambda>n text. n = JStr ''+919876543210''\<rparr>)
        (ex_create (JStr ''Medium'') ex_asha))
     (JStr ''+919876543210'') \<and>
   fst (createWaterTest (ex_collab\<lparr>whatsAppRejects := \<lambda>n text. n = JStr ''+919876543210''\<rparr>)
          (ex_create (JStr ''Medium'') ex_asha) (ex_world\<lparr>users := ex_users_many\<rparr>)) =
     Response 500 (Message ''Internal Server Error'') \<and>
   map (\<lambda>s. (fst s, fst (snd s)))
     (outbox (snd (createWaterTest (ex_collab\<lparr>whatsAppRejects := \<lambda>n text. n = JStr ''+919876543210''\<rparr>)
          (ex_create (JStr ''Medium'') ex_asha) (ex_world\<lparr>users := ex_users_many\<rparr>)))) =
     [(SMS, JStr ''+911234567890''), (WhatsApp, JStr ''+911234567890''),
      (SMS, JStr ''+919876543210''), (WhatsApp, JStr ''+919876543210'')] \<and>
   map wt_id (waterTests (snd (createWaterTest (ex_collab\<lparr>whatsAppRejects := \<lambda>n text. n = JStr ''+919876543210''\<rparr>)
          (ex_create (JStr ''Medium'') ex_asha) (ex_world\<lparr>users := ex_users_many\<rparr>)))) = [''t0'', ''t1''] \<and>
   map la_leaderId (leaderAlerts (snd (createWaterTest (ex_collab\<lparr>whatsAppRejects := \<lambda>n text. n = JStr ''+919876543210''\<rparr>)
          (ex_create (JStr ''Medium'') ex_asha) (ex_world\<lparr>users := ex_users_many\<rparr>)))) =
     [''l1'', ''l3'', ''l2'', ''l4''] \<and>
   healthCardCalls (snd (createWaterTest (ex_collab\<lparr>whatsAppRejects := \<lambda>n text. n = JStr ''+919876543210''\<rparr>)
          (ex_create (JStr ''Medium'') ex_asha) (ex_world\<lparr>users := ex_users_many\<rparr>))) = []"
proof -
  let ?c = "ex_collab\<lparr>whatsAppRejects := \<lambda>n text. n = JStr ''+919876543210''\<rparr>"
  let ?r = "ex_create (JStr ''Medium'') ex_asha"
  let ?W = "ex_world\<lparr>users := ex_users_many\<rparr>"
  let ?text = "alertMessage ?c ?r"
  have h1: "requiredPresent (body ?r)" by (rule ex_requiredPresent)
  have h2: "user_role (user ?r) \<in> set [''asha'', ''admin'', ''leader'']"
    by (simp add: ex_create_def ex_asha_def)
  have nq: "normalizedQuality ?r = ''medium''"
    by (simp add: normalizedQuality_def ex_create_def toLowerCase_Medium)
  have h3: "\<not> dbRejects ?c WaterTestCreate" by (simp add: ex_collab_def)
  have h4: "\<not> dbRejects ?c UserFindMany" by (simp add: ex_collab_def)
  have h5: "normalizedQuality ?r = ''medium'' \<and> \<not> dbRejects ?c LeaderAlertCreateMany \<or>
            normalizedQuality ?r = ''high'' \<and> \<not> dbRejects ?c GlobalAlertCreate"
    by (simp add: nq ex_collab_def)
  have rc: "recipients ''medium'' ?W = ex_users_many"
    by (simp add: recipients_def ex_users_many_def)
  have h6: "map u_number (recipients (normalizedQuality ?r) ?W) =
     [JStr ''+911234567890''] @ JStr ''+919876543210'' # [JStr ''invalid'', JStr ''+14155550100'']"
    by (simp add: nq rc) (simp add: ex_users_many_def)
  have h7: "list_all (\<lambda>m. \<not> (isValidPhoneNumber m \<and> sendRejects ?c ?text m)) [JStr ''+911234567890'']"
    by (simp add: sendRejects_def ex_collab_def)
  have h8: "isValidPhoneNumber (JStr ''+919876543210'')" by (simp add: isDigit_def)
  have h8': "isValidPhoneNumber (JStr ''+911234567890'')" by (simp add: isDigit_def)
  have h9: "sendRejects ?c ?text (JStr ''+919876543210'')" by (simp add: sendRejects_def)
  have su: "sendsUntilReject ?c ?text (JStr ''+919876543210'') =
     [(SMS, JStr ''+919876543210'', ?text), (WhatsApp, JStr ''+919876543210'', ?text)]"
    by (simp add: sendsUntilReject_def ex_collab_def)
  have ids: "map la_leaderId (map (leaderAlertFor (createdRecord ?c ?r)) ex_users_many) =
     [''l1'', ''l3'', ''l2'', ''l4'']"
    by (simp add: leaderAlertFor_def ex_users_many_def)
  have wid: "map wt_id (waterTests ?W @ [createdRecord ?c ?r]) = [''t0'', ''t1'']"
    by (simp add: createdRecord_id ex_world_def ex_test_def ex_collab_def)
  have w0: "leaderAlerts ?W = []" "outbox ?W = []" "healthCardCalls ?W = []"
    by (simp_all add: ex_world_def)
  note t = createWaterTest_send_rejects [OF h1 h2 h3 h4 h5 h6 h7 h8 h9]
  have fl: "filter isValidPhoneNumber [JStr ''+911234567890''] = [JStr ''+911234567890'']"
    using h8' by simp
  have r1: "fst (createWaterTest ?c ?r ?W) = Response 500 (Message ''Internal Server Error'')"
    using t by (rule conjunct1)
  have r2: "map (\<lambda>s. (fst s, fst (snd s))) (outbox (snd (createWaterTest ?c ?r ?W))) =
     [(SMS, JStr ''+911234567890''), (WhatsApp, JStr ''+911234567890''),
      (SMS, JStr ''+919876543210''), (WhatsApp, JStr ''+919876543210'')]"
    by (simp only: t [THEN conjunct2, THEN conjunct2, THEN conjunct2, THEN conjunct2, THEN conjunct1]
        fl su w0) (simp add: sendsTo_def)
  have r3: "map wt_id (waterTests (snd (createWaterTest ?c ?r ?W))) = [''t0'', ''t1'']"
    by (simp only: t [THEN conjunct2, THEN conjunct1] wid)
  have r4: "map la_leaderId (leaderAlerts (snd (createWaterTest ?c ?r ?W))) =
     [''l1'', ''l3'', ''l2'', ''l4'']"
    by (simp only: t [THEN conjunct2, THEN conjunct2, THEN conjunct1] nq rc w0 refl if_True
        append_Nil ids)
  have r5: "healthCardCalls (snd (createWaterTest ?c ?r ?W)) = []"
    by (simp only: t [THEN conjunct2, THEN conjunct2, THEN conjunct2, THEN conjunct2, THEN conjunct2] w0)
  from h6 h8 h9 r1 r2 r3 r4 r5 show ?thesis by (intro conjI)
qed

end
